theory Spec2Isabelle
  imports Main
begin

section \<open>Staff identity and access control: the relational store\<close>

text \<open>
  The staff backend keeps all of its state in PostgreSQL. The model has the four tables
  the code under study reads and writes: \<open>staff\<close>, \<open>staff_roles\<close>,
  \<open>staff_role_assignments\<close> and \<open>staff_activity_logs\<close>. The tables
  \<open>staff_sessions\<close> and \<open>staff_departments\<close>, which no statement of the code touches,
  are left out, and with them the reference from \<open>staff_departments.manager_id\<close>.

  A table is the list of its rows, a nullable column an \<open>option\<close>, a \<open>TIMESTAMPTZ\<close> a
  number of milliseconds (\<open>int\<close>). The surrogate \<open>id\<close> columns of
  \<open>staff_role_assignments\<close> and \<open>staff_activity_logs\<close> and the \<open>metadata\<close> column of
  \<open>staff\<close> are never read or written by the application and are left out. The
  \<open>failed_login_attempts\<close> column is a 32-bit \<open>INTEGER\<close>; it is modelled as an
  unbounded \<open>int\<close>.

  A statement is a function from the store to the new store. The driver sends every
  parameter of a statement as text, and PostgreSQL converts it to the type of the column
  it meets. A statement that PostgreSQL rejects returns \<open>Inl\<close>; the driver turns that
  into a thrown exception. The rejections of the model are: a parameter that is not the
  text of a value of its column's type (\<open>UUID\<close>, \<open>INET\<close>, \<open>JSONB\<close>, or any text with a
  NUL character), a string longer than its \<open>VARCHAR(n)\<close> column, a violated \<open>UNIQUE\<close>
  or \<open>REFERENCES\<close> constraint, and a cast that does not exist. When a statement has
  several faults the model reports the conversion faults first, in the order of the
  parameters; the callers distinguish no errors except by their message. A string is a
  list of characters, and the length of a \<open>VARCHAR\<close> value is the length of that list.
  The two lookups by e-mail take the parameter as it is: the handlers hand them only
  strings that zod has accepted as e-mail addresses or that come from a verified token.
  Failures of the connection itself are not part of the model.
\<close>

subsection \<open>Values of type \<open>UUID\<close>\<close>

text \<open>
  PostgreSQL reads a \<open>UUID\<close> from text (\<open>string_to_uuid\<close>) as 32 hexadecimal digits in
  either case, with an optional hyphen after each group of four digits except the last,
  and optionally enclosed in braces; it prints one as lower-case digits in groups of
  8, 4, 4, 4 and 12. Two texts that read as the same value are the same \<open>UUID\<close>.
\<close>

definition isxdigit :: "char \<Rightarrow> bool" where
  "isxdigit c = (c \<in> set ''0123456789abcdefABCDEF'')"

definition tolower_hex :: "char \<Rightarrow> char" where
  "tolower_hex c =
     (if c = CHR ''A'' then CHR ''a'' else if c = CHR ''B'' then CHR ''b''
      else if c = CHR ''C'' then CHR ''c'' else if c = CHR ''D'' then CHR ''d''
      else if c = CHR ''E'' then CHR ''e'' else if c = CHR ''F'' then CHR ''f'' else c)"

text \<open>A hexadecimal digit as \<open>UUID\<close> output prints it.\<close>

definition lower_hex :: "char \<Rightarrow> bool" where
  "lower_hex c = (isxdigit c \<and> tolower_hex c = c)"

text \<open>
  \<open>read_groups m src\<close> reads \<open>m\<close> groups of four digits from \<open>src\<close> and returns the
  digits in lower case with the rest of the text.
\<close>

fun read_groups :: "nat \<Rightarrow> string \<Rightarrow> (string \<times> string) option" where
  "read_groups 0 src = Some ([], src)"
| "read_groups (Suc m) (a # b # c # d # src) =
     (if isxdigit a \<and> isxdigit b \<and> isxdigit c \<and> isxdigit d
      then (case read_groups m (if 0 < m \<and> take 1 src = ''-'' then drop 1 src else src) of
              None \<Rightarrow> None
            | Some (digits, rest) \<Rightarrow>
                Some (tolower_hex a # tolower_hex b # tolower_hex c # tolower_hex d # digits,
                      rest))
      else None)"
| "read_groups (Suc m) src = None"

definition uuid_text :: "string \<Rightarrow> string" where
  "uuid_text digits =
     take 8 digits @ ''-'' @ take 4 (drop 8 digits) @ ''-'' @ take 4 (drop 12 digits) @ ''-''
       @ take 4 (drop 16 digits) @ ''-'' @ drop 20 digits"

text \<open>The printed form of the value a text reads as, if it reads as one.\<close>

definition string_to_uuid :: "string \<Rightarrow> string option" where
  "string_to_uuid source =
     (let braces = (take 1 source = ''{'');
          src = (if braces then drop 1 source else source)
      in case read_groups 8 src of
           None \<Rightarrow> None
         | Some (digits, rest) \<Rightarrow>
             if rest = (if braces then ''}'' else []) then Some (uuid_text digits) else None)"

text \<open>A \<open>UUID\<close> value is represented by its printed form.\<close>

typedef uuid = "{s. string_to_uuid s = Some s}"
  morphisms uuid_out Abs_uuid
proof
  show "''00000000-0000-0000-0000-000000000000'' \<in> {s. string_to_uuid s = Some s}"
    by (simp add: string_to_uuid_def uuid_text_def isxdigit_def tolower_hex_def
        eval_nat_numeral)
qed

definition uuid_in :: "string \<Rightarrow> uuid option" where
  "uuid_in s = map_option Abs_uuid (string_to_uuid s)"

subsection \<open>Tables\<close>

type_synonym timestamp = int

record staff_row =
  id_col :: uuid
  email_col :: string
  password_hash :: string
  first_name :: string
  last_name :: string
  phone_col :: "string option"
  department_col :: "string option"
  position_col :: "string option"
  employee_id :: "string option"
  status_col :: string
  is_super_admin :: bool
  last_login_at :: "timestamp option"
  password_changed_at :: "timestamp option"
  failed_login_attempts :: int
  locked_until :: "timestamp option"
  created_at :: timestamp
  updated_at :: timestamp
  created_by :: "uuid option"
  updated_by :: "uuid option"

text \<open>The \<open>permissions\<close> column is \<open>JSONB\<close>; the seeded values are arrays of strings.\<close>

record role_row =
  role_id_col :: uuid
  role_name :: string
  role_permissions :: "string list"

record assignment_row =
  a_staff_id :: uuid
  a_role_id :: uuid
  assigned_at :: timestamp
  assigned_by :: "uuid option"

text \<open>The \<open>details\<close> column holds \<open>JSON.stringify({method, path, query})\<close>.\<close>

record details =
  d_method :: string
  d_path :: string
  d_query :: "(string \<times> string) list"

record log_row =
  log_staff_id :: "uuid option"
  log_action :: string
  log_resource_type :: "string option"
  log_resource_id :: "string option"
  log_details :: details
  log_ip_address :: "string option"
  log_user_agent :: "string option"
  log_status :: string
  log_error_message :: "string option"
  log_timestamp :: timestamp

record store =
  staff :: "staff_row list"
  staff_roles :: "role_row list"
  staff_role_assignments :: "assignment_row list"
  staff_activity_logs :: "log_row list"

datatype db_error =
    UniqueViolation
  | ForeignKeyViolation
  | InvalidUuid
  | InvalidInet
  | InvalidJson
  | InvalidByteSequence
  | StringDataRightTruncation
  | CannotCoerce

text \<open>The \<open>message\<close> of the exception, without the names and values PostgreSQL quotes in it.\<close>

fun db_message :: "db_error \<Rightarrow> string" where
  "db_message UniqueViolation = ''duplicate key value violates unique constraint''"
| "db_message ForeignKeyViolation = ''violates foreign key constraint''"
| "db_message InvalidUuid = ''invalid input syntax for type uuid''"
| "db_message InvalidInet = ''invalid input syntax for type inet''"
| "db_message InvalidJson = ''unsupported Unicode escape sequence''"
| "db_message InvalidByteSequence = ''invalid byte sequence for encoding UTF8: 0x00''"
| "db_message StringDataRightTruncation = ''value too long for type character varying''"
| "db_message CannotCoerce = ''cannot cast type jsonb to text[]''"

definition staff_ids :: "store \<Rightarrow> uuid set" where
  "staff_ids db = set (map id_col (staff db))"

definition role_ids :: "store \<Rightarrow> uuid set" where
  "role_ids db = set (map role_id_col (staff_roles db))"

text \<open>
  The constraints the schema declares on the modelled columns: \<open>id\<close> is the primary key
  of \<open>staff\<close>, \<open>email\<close> is \<open>UNIQUE\<close>, and \<open>(staff_id, role_id)\<close> is \<open>UNIQUE\<close> in
  \<open>staff_role_assignments\<close>.
\<close>

definition constraints_hold :: "store \<Rightarrow> bool" where
  "constraints_hold db =
     (distinct (map id_col (staff db)) \<and>
      distinct (map email_col (staff db)) \<and>
      distinct (map (\<lambda>a. (a_staff_id a, a_role_id a)) (staff_role_assignments db)))"

text \<open>The row of an account, by primary key.\<close>

definition row_of :: "store \<Rightarrow> uuid \<Rightarrow> staff_row option" where
  "row_of db i = find (\<lambda>r. id_col r = i) (staff db)"

text \<open>The failed-attempt counter and the lockout expiry of an account, as stored.\<close>

definition counter_of :: "store \<Rightarrow> uuid \<Rightarrow> int option" where
  "counter_of db i = map_option failed_login_attempts (row_of db i)"

definition lockout_of :: "store \<Rightarrow> uuid \<Rightarrow> timestamp option option" where
  "lockout_of db i = map_option locked_until (row_of db i)"

subsection \<open>Parameters of a statement\<close>

text \<open>A parameter for a \<open>UUID\<close> column; \<open>undefined\<close> and \<open>null\<close> are sent as \<open>NULL\<close>.\<close>

definition uuid_param :: "string option \<Rightarrow> db_error + uuid option" where
  "uuid_param v =
     (case v of
        None \<Rightarrow> Inr None
      | Some s \<Rightarrow> (case uuid_in s of None \<Rightarrow> Inl InvalidUuid | Some u \<Rightarrow> Inr (Some u)))"

text \<open>No text value may hold the character NUL.\<close>

definition nul :: char where
  "nul = CHR 0x00"

definition text_errors :: "string option \<Rightarrow> db_error list" where
  "text_errors v =
     (case v of
        None \<Rightarrow> []
      | Some s \<Rightarrow> if nul \<in> set s then [InvalidByteSequence] else [])"

text \<open>
  A string assigned to a \<open>VARCHAR(n)\<close> column must have at most \<open>n\<close> characters, unless
  the characters beyond the \<open>n\<close>-th are all spaces; then the first \<open>n\<close> are stored.
\<close>

definition fits :: "nat \<Rightarrow> string \<Rightarrow> bool" where
  "fits n s = (length s \<le> n \<or> drop n s = replicate (length s - n) CHR '' '')"

definition varchar_errors :: "nat \<Rightarrow> string option \<Rightarrow> db_error list" where
  "varchar_errors n v =
     (case v of
        None \<Rightarrow> []
      | Some s \<Rightarrow> if fits n s then [] else [StringDataRightTruncation])"

definition varchar :: "nat \<Rightarrow> string \<Rightarrow> string" where
  "varchar n s = take n s"

text \<open>
  \<open>JSONB\<close> does not take the escape by which \<open>JSON.stringify\<close> writes a NUL
  character of a string.
\<close>

definition jsonb_errors :: "details \<Rightarrow> db_error list" where
  "jsonb_errors d =
     (if nul \<in> set (d_method d) \<or> nul \<in> set (d_path d)
         \<or> list_ex (\<lambda>(k, v). nul \<in> set k \<or> nul \<in> set v) (d_query d)
      then [InvalidJson] else [])"

section \<open>The objects of the application\<close>

text \<open>The \<open>Staff\<close> interface of \<open>staff.model.ts\<close> and its extension for the login path.\<close>

record Staff =
  sId :: string
  email :: string
  firstName :: string
  lastName :: string
  phone :: "string option"
  department :: "string option"
  position :: "string option"
  employeeId :: "string option"
  status :: string
  isSuperAdmin :: bool
  lastLoginAt :: "timestamp option"
  createdAt :: timestamp
  updatedAt :: timestamp

record StaffWithPassword = Staff +
  passwordHash :: string
  failedLoginAttempts :: int
  lockedUntil :: "timestamp option"

text \<open>The payload of a token and the identity \<open>req.staff\<close> the interceptor attaches.\<close>

record TokenPayload =
  staffId :: string
  payloadEmail :: string
  payloadIsAdmin :: bool
  payloadPermissions :: "string list"

record ReqStaff =
  reqId :: string
  reqEmail :: string
  isAdmin :: bool
  permissions :: "string list"

text \<open>
  The request. The body is a JSON object with string values, and the values of the query
  are strings; \<open>params_id\<close> and \<open>params_roleId\<close> are \<open>req.params.id\<close> and
  \<open>req.params.roleId\<close>, which the router takes from the path and decodes.
\<close>

record request =
  headers_authorization :: "string option"
  headers_user_agent :: "string option"
  req_body :: "(string \<times> string) list"
  params_id :: "string option"
  params_roleId :: "string option"
  req_method :: string
  req_path :: string
  req_query :: "(string \<times> string) list"
  req_ip :: "string option"
  socket_remoteAddress :: "string option"
  req_staff :: "ReqStaff option"

record LoginStaff =
  ls_id :: string
  ls_email :: string
  ls_firstName :: string
  ls_lastName :: string
  ls_department :: "string option"
  ls_position :: "string option"
  ls_isSuperAdmin :: bool

text \<open>
  The JSON bodies the modelled handlers send: \<open>{success: false, error}\<close>, the same with
  \<open>details\<close>, \<open>{success: true, data: {token, staff}}\<close>, \<open>{success: true, message}\<close> and
  \<open>{success: true, data: staff}\<close>.
\<close>

datatype json_body =
    ErrorBody string
  | ErrorDetailsBody string "string list"
  | LoginBody string LoginStaff
  | MessageBody string
  | StaffBody Staff

text \<open>
  The Express response object: \<open>res.status(n)\<close> stores the status code and
  \<open>res.json(body)\<close> sends a body; \<open>sent\<close> lists the bodies sent so far, in order.
\<close>

record res_state =
  statusCode :: nat
  sent :: "json_body list"

definition res_status :: "nat \<Rightarrow> res_state \<Rightarrow> res_state" where
  "res_status n res = res\<lparr>statusCode := n\<rparr>"

definition res_json :: "json_body \<Rightarrow> res_state \<Rightarrow> res_state" where
  "res_json b res = res\<lparr>sent := sent res @ [b]\<rparr>"

text \<open>\<open>res.status(n).json({success: false, error: msg})\<close>.\<close>

definition fail :: "nat \<Rightarrow> string \<Rightarrow> res_state \<Rightarrow> res_state" where
  "fail n msg res = res_json (ErrorBody msg) (res_status n res)"

text \<open>A middleware either answers the request or calls \<open>next()\<close>.\<close>

datatype mw_result = Responded res_state | Next request

text \<open>
  What the application takes from outside the repository's source: the clocks, zod's
  e-mail check, the functions of \<open>utils/auth\<close> (bcrypt, JWT and the password rules),
  the store's \<open>uuid_generate_v4()\<close> and its reading of an \<open>INET\<close> value. \<open>verifyToken\<close>
  throws on a bad token, which is \<open>None\<close> here; \<open>validatePassword\<close> returns
  \<open>{valid, errors}\<close>.
\<close>

record env =
  jsNow :: timestamp
  dbNow :: timestamp
  isEmail :: "string \<Rightarrow> bool"
  verifyPassword :: "string \<Rightarrow> string \<Rightarrow> bool"
  hashPassword :: "string \<Rightarrow> string"
  validatePassword :: "string \<Rightarrow> bool \<times> string list"
  generateToken :: "TokenPayload \<Rightarrow> string"
  verifyToken :: "string \<Rightarrow> TokenPayload option"
  newId :: uuid
  isInet :: "string \<Rightarrow> bool"

section \<open>staff.model.ts\<close>

text \<open>\<open>result[0] || null\<close>\<close>

fun first_row :: "'a list \<Rightarrow> 'a option" where
  "first_row [] = None"
| "first_row (x # _) = Some x"

text \<open>
  The column lists of the \<open>SELECT\<close> statements; the driver hands an \<open>id\<close> to the
  application as its printed form.
\<close>

definition select_Staff :: "staff_row \<Rightarrow> Staff" where
  "select_Staff r =
     \<lparr>sId = uuid_out (id_col r), email = email_col r, firstName = first_name r,
      lastName = last_name r, phone = phone_col r, department = department_col r,
      position = position_col r, employeeId = employee_id r, status = status_col r,
      isSuperAdmin = is_super_admin r, lastLoginAt = last_login_at r,
      createdAt = created_at r, updatedAt = updated_at r\<rparr>"

definition select_StaffWithPassword :: "staff_row \<Rightarrow> StaffWithPassword" where
  "select_StaffWithPassword r =
     \<lparr>sId = uuid_out (id_col r), email = email_col r, firstName = first_name r,
      lastName = last_name r, phone = phone_col r, department = department_col r,
      position = position_col r, employeeId = employee_id r, status = status_col r,
      isSuperAdmin = is_super_admin r, lastLoginAt = last_login_at r,
      createdAt = created_at r, updatedAt = updated_at r,
      passwordHash = password_hash r, failedLoginAttempts = failed_login_attempts r,
      lockedUntil = locked_until r\<rparr>"

text \<open>
  The \<open>RETURNING\<close> lists of \<open>create\<close> and \<open>update\<close> have no \<open>last_login_at\<close>: the
  field is \<open>undefined\<close> in the object they return.
\<close>

definition returning_Staff :: "staff_row \<Rightarrow> Staff" where
  "returning_Staff r = (select_Staff r)\<lparr>lastLoginAt := None\<rparr>"

text \<open>
  \<open>... FROM staff WHERE id = $1\<close>: the parameter is read as a \<open>UUID\<close> and compared
  with the column as a value.
\<close>

definition StaffModel_findById :: "store \<Rightarrow> string \<Rightarrow> db_error + Staff option" where
  "StaffModel_findById db i =
     (case uuid_in i of
        None \<Rightarrow> Inl InvalidUuid
      | Some u \<Rightarrow> Inr (first_row (map select_Staff (filter (\<lambda>r. id_col r = u) (staff db)))))"

text \<open>\<open>... FROM staff WHERE email = $1\<close>: equality of \<open>VARCHAR\<close> values.\<close>

definition StaffModel_findByEmail :: "store \<Rightarrow> string \<Rightarrow> Staff option" where
  "StaffModel_findByEmail db e =
     first_row (map select_Staff (filter (\<lambda>r. email_col r = e) (staff db)))"

definition StaffModel_findByEmailWithPassword :: "store \<Rightarrow> string \<Rightarrow> StaffWithPassword option" where
  "StaffModel_findByEmailWithPassword db e =
     first_row (map select_StaffWithPassword (filter (\<lambda>r. email_col r = e) (staff db)))"

text \<open>
  \<open>UPDATE staff SET ... WHERE id = $1\<close>, once the parameter is read: the assignments
  read the old row; the trigger \<open>update_staff_updated_at\<close> stamps every updated row.
\<close>

definition update_staff_where_id :: "timestamp \<Rightarrow> uuid \<Rightarrow> (staff_row \<Rightarrow> staff_row) \<Rightarrow> store \<Rightarrow> store" where
  "update_staff_where_id now i f db =
     db\<lparr>staff := map (\<lambda>r. if id_col r = i then (f r)\<lparr>updated_at := now\<rparr> else r) (staff db)\<rparr>"

record CreateData =
  cd_email :: string
  cd_password :: string
  cd_firstName :: string
  cd_lastName :: string
  cd_phone :: "string option"
  cd_department :: "string option"
  cd_position :: "string option"
  cd_employeeId :: "string option"
  cd_createdBy :: "string option"

text \<open>
  \<open>create\<close>: the columns the \<open>INSERT\<close> does not name take their defaults; the new
  \<open>id\<close> is the store's \<open>uuid_generate_v4()\<close>, here \<open>newId\<close>.
\<close>

definition StaffModel_create :: "env \<Rightarrow> CreateData \<Rightarrow> store \<Rightarrow> db_error + (Staff \<times> store)" where
  "StaffModel_create e data db =
     (let passwordHash = hashPassword e (cd_password data) in
      case text_errors (Some (cd_email data)) @ text_errors (Some passwordHash)
           @ text_errors (Some (cd_firstName data)) @ text_errors (Some (cd_lastName data))
           @ text_errors (cd_phone data) @ text_errors (cd_department data)
           @ text_errors (cd_position data) @ text_errors (cd_employeeId data) of
        err # _ \<Rightarrow> Inl err
      | [] \<Rightarrow>
          (case uuid_param (cd_createdBy data) of
             Inl err \<Rightarrow> Inl err
           | Inr createdBy \<Rightarrow>
               (case varchar_errors 255 (Some (cd_email data))
                     @ varchar_errors 255 (Some passwordHash)
                     @ varchar_errors 100 (Some (cd_firstName data))
                     @ varchar_errors 100 (Some (cd_lastName data))
                     @ varchar_errors 20 (cd_phone data)
                     @ varchar_errors 100 (cd_department data)
                     @ varchar_errors 100 (cd_position data)
                     @ varchar_errors 50 (cd_employeeId data) of
                  err # _ \<Rightarrow> Inl err
                | [] \<Rightarrow>
                    let row =
                      \<lparr>id_col = newId e, email_col = varchar 255 (cd_email data),
                       password_hash = varchar 255 passwordHash,
                       first_name = varchar 100 (cd_firstName data),
                       last_name = varchar 100 (cd_lastName data),
                       phone_col = map_option (varchar 20) (cd_phone data),
                       department_col = map_option (varchar 100) (cd_department data),
                       position_col = map_option (varchar 100) (cd_position data),
                       employee_id = map_option (varchar 50) (cd_employeeId data),
                       status_col = ''active'', is_super_admin = False, last_login_at = None,
                       password_changed_at = None, failed_login_attempts = 0,
                       locked_until = None, created_at = dbNow e, updated_at = dbNow e,
                       created_by = createdBy, updated_by = None\<rparr>
                    in if newId e \<in> staff_ids db
                          \<or> email_col row \<in> set (map email_col (staff db))
                          \<or> (case employee_id row of
                                None \<Rightarrow> False
                              | Some x \<Rightarrow> Some x \<in> set (map employee_id (staff db)))
                       then Inl UniqueViolation
                       else if (case createdBy of None \<Rightarrow> False | Some c \<Rightarrow> c \<notin> staff_ids db)
                       then Inl ForeignKeyViolation
                       else Inr (returning_Staff row, db\<lparr>staff := staff db @ [row]\<rparr>))))"

record UpdateData =
  ud_firstName :: "string option"
  ud_lastName :: "string option"
  ud_phone :: "string option"
  ud_department :: "string option"
  ud_position :: "string option"
  ud_status :: "string option"
  ud_updatedBy :: "string option"

text \<open>
  The \<open>SET\<close> list \<open>update\<close> builds: a column is assigned when its field is defined and
  keeps its value otherwise.
\<close>

definition set_fields :: "UpdateData \<Rightarrow> uuid option \<Rightarrow> staff_row \<Rightarrow> staff_row" where
  "set_fields data updatedBy r =
     r\<lparr>first_name := (case ud_firstName data of None \<Rightarrow> first_name r | Some v \<Rightarrow> varchar 100 v),
       last_name := (case ud_lastName data of None \<Rightarrow> last_name r | Some v \<Rightarrow> varchar 100 v),
       phone_col :=
         (case ud_phone data of None \<Rightarrow> phone_col r | Some v \<Rightarrow> Some (varchar 20 v)),
       department_col :=
         (case ud_department data of None \<Rightarrow> department_col r | Some v \<Rightarrow> Some (varchar 100 v)),
       position_col :=
         (case ud_position data of None \<Rightarrow> position_col r | Some v \<Rightarrow> Some (varchar 100 v)),
       status_col := (case ud_status data of None \<Rightarrow> status_col r | Some v \<Rightarrow> varchar 50 v),
       updated_by := (case updatedBy of None \<Rightarrow> updated_by r | Some u \<Rightarrow> Some u)\<rparr>"

definition no_fields :: "UpdateData \<Rightarrow> bool" where
  "no_fields data =
     (ud_firstName data = None \<and> ud_lastName data = None \<and> ud_phone data = None \<and>
      ud_department data = None \<and> ud_position data = None \<and> ud_status data = None \<and>
      ud_updatedBy data = None)"

text \<open>
  \<open>update\<close>. The parameters are read and fitted to their columns before any row is
  looked at; the reference of \<open>updated_by\<close> is checked for the row that is updated.
\<close>

definition StaffModel_update :: "env \<Rightarrow> string \<Rightarrow> UpdateData \<Rightarrow> store \<Rightarrow> db_error + (Staff option \<times> store)" where
  "StaffModel_update e i data db =
     (if no_fields data
      then (case StaffModel_findById db i of Inl err \<Rightarrow> Inl err | Inr s \<Rightarrow> Inr (s, db))
      else
        (case text_errors (ud_firstName data) @ text_errors (ud_lastName data)
              @ text_errors (ud_phone data) @ text_errors (ud_department data)
              @ text_errors (ud_position data) @ text_errors (ud_status data) of
           err # _ \<Rightarrow> Inl err
         | [] \<Rightarrow>
             (case uuid_param (ud_updatedBy data) of
                Inl err \<Rightarrow> Inl err
              | Inr updatedBy \<Rightarrow>
                  (case uuid_in i of
                     None \<Rightarrow> Inl InvalidUuid
                   | Some u \<Rightarrow>
                       (case varchar_errors 100 (ud_firstName data)
                             @ varchar_errors 100 (ud_lastName data)
                             @ varchar_errors 20 (ud_phone data)
                             @ varchar_errors 100 (ud_department data)
                             @ varchar_errors 100 (ud_position data)
                             @ varchar_errors 50 (ud_status data) of
                          err # _ \<Rightarrow> Inl err
                        | [] \<Rightarrow>
                            if u \<notin> staff_ids db then Inr (None, db)
                            else if (case updatedBy of
                                       None \<Rightarrow> False
                                     | Some b \<Rightarrow> b \<notin> staff_ids db)
                            then Inl ForeignKeyViolation
                            else
                              let db' = update_staff_where_id (dbNow e) u
                                          (set_fields data updatedBy) db
                              in Inr (first_row (map returning_Staff
                                        (filter (\<lambda>r. id_col r = u) (staff db'))), db'))))))"

text \<open>\<open>SET password_hash = $1, password_changed_at = NOW() WHERE id = $2\<close>\<close>

definition StaffModel_updatePassword :: "env \<Rightarrow> string \<Rightarrow> string \<Rightarrow> store \<Rightarrow> db_error + store" where
  "StaffModel_updatePassword e i newPassword db =
     (let passwordHash = hashPassword e newPassword in
      case text_errors (Some passwordHash) of
        err # _ \<Rightarrow> Inl err
      | [] \<Rightarrow>
          (case uuid_in i of
             None \<Rightarrow> Inl InvalidUuid
           | Some u \<Rightarrow>
               (case varchar_errors 255 (Some passwordHash) of
                  err # _ \<Rightarrow> Inl err
                | [] \<Rightarrow>
                    Inr (update_staff_where_id (dbNow e) u
                           (\<lambda>r. r\<lparr>password_hash := varchar 255 passwordHash,
                                   password_changed_at := Some (dbNow e)\<rparr>) db))))"

text \<open>
  \<open>SET last_login_at = NOW(), failed_login_attempts = 0, locked_until = NULL
     WHERE id = $1\<close>
\<close>

definition set_last_login :: "env \<Rightarrow> staff_row \<Rightarrow> staff_row" where
  "set_last_login e r =
     r\<lparr>last_login_at := Some (dbNow e), failed_login_attempts := 0, locked_until := None\<rparr>"

definition StaffModel_updateLastLogin :: "env \<Rightarrow> string \<Rightarrow> store \<Rightarrow> db_error + store" where
  "StaffModel_updateLastLogin e i db =
     (case uuid_in i of
        None \<Rightarrow> Inl InvalidUuid
      | Some u \<Rightarrow> Inr (update_staff_where_id (dbNow e) u (set_last_login e) db))"

text \<open>\<open>INTERVAL '30 minutes'\<close>, in milliseconds.\<close>

definition thirty_minutes :: int where
  "thirty_minutes = 30 * 60 * 1000"

text \<open>
  \<open>SET failed_login_attempts = failed_login_attempts + 1,
       locked_until = CASE WHEN failed_login_attempts >= 4
                           THEN NOW() + INTERVAL '30 minutes' ELSE locked_until END
     WHERE id = $1\<close>
\<close>

definition set_failed_login :: "env \<Rightarrow> staff_row \<Rightarrow> staff_row" where
  "set_failed_login e r =
     r\<lparr>failed_login_attempts := failed_login_attempts r + 1,
       locked_until := (if failed_login_attempts r \<ge> 4
                        then Some (dbNow e + thirty_minutes)
                        else locked_until r)\<rparr>"

definition StaffModel_incrementFailedLogins :: "env \<Rightarrow> string \<Rightarrow> store \<Rightarrow> db_error + store" where
  "StaffModel_incrementFailedLogins e i db =
     (case uuid_in i of
        None \<Rightarrow> Inl InvalidUuid
      | Some u \<Rightarrow> Inr (update_staff_where_id (dbNow e) u (set_failed_login e) db))"

text \<open>
  \<open>DELETE FROM staff WHERE id = $1\<close>. Assignments of the account go with it
  (\<open>ON DELETE CASCADE\<close>), its log entries lose their \<open>staff_id\<close> (\<open>ON DELETE SET NULL\<close>),
  and a reference from a row that stays (\<open>created_by\<close>, \<open>updated_by\<close>, \<open>assigned_by\<close>)
  makes the statement fail.
\<close>

definition still_referenced :: "store \<Rightarrow> uuid \<Rightarrow> bool" where
  "still_referenced db i =
     (list_ex (\<lambda>r. id_col r \<noteq> i \<and> (created_by r = Some i \<or> updated_by r = Some i)) (staff db)
      \<or> list_ex (\<lambda>a. a_staff_id a \<noteq> i \<and> assigned_by a = Some i) (staff_role_assignments db))"

definition StaffModel_delete :: "string \<Rightarrow> store \<Rightarrow> db_error + store" where
  "StaffModel_delete i db =
     (case uuid_in i of
        None \<Rightarrow> Inl InvalidUuid
      | Some u \<Rightarrow>
          if u \<notin> staff_ids db then Inr db
          else if still_referenced db u then Inl ForeignKeyViolation
          else Inr (db\<lparr>staff := filter (\<lambda>r. id_col r \<noteq> u) (staff db),
                       staff_role_assignments :=
                         filter (\<lambda>a. a_staff_id a \<noteq> u) (staff_role_assignments db),
                       staff_activity_logs :=
                         map (\<lambda>l. if log_staff_id l = Some u then l\<lparr>log_staff_id := None\<rparr> else l)
                           (staff_activity_logs db)\<rparr>))"

text \<open>
  \<open>INSERT INTO staff_role_assignments (staff_id, role_id, assigned_by)
     VALUES ($1, $2, $3) ON CONFLICT (staff_id, role_id) DO NOTHING\<close>:
  with a conflicting row nothing is inserted and nothing is checked; otherwise the new
  row's foreign keys must resolve.
\<close>

definition StaffModel_assignRole :: "env \<Rightarrow> string \<Rightarrow> string \<Rightarrow> string option \<Rightarrow> store \<Rightarrow> db_error + store" where
  "StaffModel_assignRole e staffId' roleId assignedBy db =
     (case uuid_in staffId' of
        None \<Rightarrow> Inl InvalidUuid
      | Some s \<Rightarrow>
          (case uuid_in roleId of
             None \<Rightarrow> Inl InvalidUuid
           | Some r \<Rightarrow>
               (case uuid_param assignedBy of
                  Inl err \<Rightarrow> Inl err
                | Inr b \<Rightarrow>
                    if list_ex (\<lambda>a. a_staff_id a = s \<and> a_role_id a = r)
                         (staff_role_assignments db)
                    then Inr db
                    else if s \<notin> staff_ids db \<or> r \<notin> role_ids db
                            \<or> (case b of None \<Rightarrow> False | Some x \<Rightarrow> x \<notin> staff_ids db)
                    then Inl ForeignKeyViolation
                    else Inr (db\<lparr>staff_role_assignments := staff_role_assignments db @
                                 [\<lparr>a_staff_id = s, a_role_id = r, assigned_at = dbNow e,
                                   assigned_by = b\<rparr>]\<rparr>))))"

text \<open>
  \<open>DELETE FROM staff_role_assignments WHERE staff_id = $1 AND role_id = $2\<close>: no
  constraint can reject it.
\<close>

definition StaffModel_removeRole :: "string \<Rightarrow> string \<Rightarrow> store \<Rightarrow> db_error + store" where
  "StaffModel_removeRole staffId' roleId db =
     (case uuid_in staffId' of
        None \<Rightarrow> Inl InvalidUuid
      | Some s \<Rightarrow>
          (case uuid_in roleId of
             None \<Rightarrow> Inl InvalidUuid
           | Some r \<Rightarrow>
               Inr (db\<lparr>staff_role_assignments :=
                      filter (\<lambda>a. \<not> (a_staff_id a = s \<and> a_role_id a = r))
                        (staff_role_assignments db)\<rparr>)))"

text \<open>
  \<open>SELECT DISTINCT unnest(r.permissions::text[]) FROM staff_roles r
     JOIN staff_role_assignments sra ON sra.role_id = r.id WHERE sra.staff_id = $1\<close>.
  The column \<open>permissions\<close> is declared \<open>JSONB\<close>, and the casts PostgreSQL has from
  \<open>jsonb\<close> lead to \<open>json\<close>, \<open>bool\<close>, the numeric types and the string types: the cast to
  \<open>text[]\<close> is refused when the statement is analysed, before a parameter is read or a
  row is looked at.
\<close>

datatype sql_type = Jsonb | Json | Boolean | Numeric | Text | TextArray

definition permissions_type :: sql_type where
  "permissions_type = Jsonb"

definition can_cast :: "sql_type \<Rightarrow> sql_type \<Rightarrow> bool" where
  "can_cast s t =
     (s = t \<or>
      (s, t) \<in> set [(Jsonb, Json), (Jsonb, Boolean), (Jsonb, Numeric), (Jsonb, Text),
                    (Json, Jsonb), (Json, Text), (Text, Jsonb), (Text, Json),
                    (Text, Boolean), (Text, Numeric), (Text, TextArray),
                    (Boolean, Text), (Numeric, Text), (TextArray, Text)])"

definition StaffModel_getPermissions :: "store \<Rightarrow> string \<Rightarrow> db_error + string list" where
  "StaffModel_getPermissions db staffId' =
     (if \<not> can_cast permissions_type TextArray then Inl CannotCoerce
      else
        (case uuid_in staffId' of
           None \<Rightarrow> Inl InvalidUuid
         | Some s \<Rightarrow>
             Inr (remdups (concat (map (\<lambda>r.
                    concat (map (\<lambda>sra. if a_role_id sra = role_id_col r \<and> a_staff_id sra = s
                                        then role_permissions r else [])
                              (staff_role_assignments db)))
                    (staff_roles db))))))"

section \<open>auth.middleware.ts\<close>

text \<open>\<open>String.prototype.split\<close> with a one-character separator.\<close>

fun js_split :: "char \<Rightarrow> string \<Rightarrow> string list" where
  "js_split sep [] = [[]]"
| "js_split sep (c # cs) =
     (if c = sep then [] # js_split sep cs
      else (case js_split sep cs of
              [] \<Rightarrow> [[c]]
            | w # ws \<Rightarrow> (c # w) # ws))"

text \<open>
  \<open>const [resource, action] = permission.split(':')\<close>: the first element of the
  array, \<open>undefined\<close> for an empty array (which the template literal prints).
\<close>

definition resource_of :: "string \<Rightarrow> string" where
  "resource_of permission =
     (case js_split CHR '':'' permission of
        [] \<Rightarrow> ''undefined''
      | resource # _ \<Rightarrow> resource)"

definition requirePermission :: "string \<Rightarrow> request \<Rightarrow> res_state \<Rightarrow> mw_result" where
  "requirePermission permission req res =
     (case req_staff req of
        None \<Rightarrow> Responded (fail 401 ''Authentication required'' res)
      | Some st \<Rightarrow>
          if ''*'' \<in> set (permissions st) then Next req
          else if permission \<in> set (permissions st) then Next req
          else
            let wildcardPermission = resource_of permission @ '':*'' in
            if wildcardPermission \<in> set (permissions st) then Next req
            else Responded (fail 403 ''Insufficient permissions'' res))"

definition startsWith :: "string \<Rightarrow> string \<Rightarrow> bool" where
  "startsWith s p = (take (length p) s = p)"

text \<open>
  \<open>authenticateStaff\<close>. A throwing \<open>verifyToken\<close> and a rejected lookup of the token's
  staff id are caught by the inner \<open>try\<close> block, which answers 401. Nothing in the model
  throws past it, so the 500 of the outer \<open>catch\<close> has no branch here.
\<close>

definition authenticateStaff :: "env \<Rightarrow> store \<Rightarrow> request \<Rightarrow> res_state \<Rightarrow> mw_result" where
  "authenticateStaff e db req res =
     (case headers_authorization req of
        None \<Rightarrow> Responded (fail 401 ''No authentication token provided'' res)
      | Some authHeader \<Rightarrow>
          if authHeader = [] \<or> \<not> startsWith authHeader ''Bearer ''
          then Responded (fail 401 ''No authentication token provided'' res)
          else
            let token = drop 7 authHeader in
            (case verifyToken e token of
               None \<Rightarrow> Responded (fail 401 ''Invalid or expired authentication token'' res)
             | Some payload \<Rightarrow>
                 (case StaffModel_findById db (staffId payload) of
                    Inl err \<Rightarrow>
                      Responded (fail 401 ''Invalid or expired authentication token'' res)
                  | Inr None \<Rightarrow> Responded (fail 401 ''Staff member not found'' res)
                  | Inr (Some staff') \<Rightarrow>
                      if status staff' \<noteq> ''active''
                      then Responded (fail 403 ''Staff account is not active'' res)
                      else Next (req\<lparr>req_staff := Some
                             \<lparr>reqId = staffId payload, reqEmail = payloadEmail payload,
                              isAdmin = payloadIsAdmin payload,
                              permissions = payloadPermissions payload\<rparr>\<rparr>))))"

text \<open>
  The token a request presents, if any, and the status code with which a middleware
  answers, if it answers.
\<close>

definition bearer_token :: "request \<Rightarrow> string option" where
  "bearer_token req =
     (case headers_authorization req of
        None \<Rightarrow> None
      | Some h \<Rightarrow> if startsWith h ''Bearer '' then Some (drop 7 h) else None)"

definition responded_status :: "mw_result \<Rightarrow> nat option" where
  "responded_status m = (case m of Responded res \<Rightarrow> Some (statusCode res) | Next req \<Rightarrow> None)"

section \<open>utils/validators.ts\<close>

text \<open>
  \<open>schema.parse(req.body)\<close>: the body is a JSON object with string values. A failed
  parse throws a \<open>ZodError\<close> whose message lists the issues; zod renders the list as
  JSON, \<open>zod_message\<close> stands for that rendering. An issue without a message of the
  schema's own carries zod's default text, shortened here.
\<close>

record LoginInput =
  li_email :: string
  li_password :: string

definition loginSchema_issues :: "(string \<Rightarrow> bool) \<Rightarrow> (string \<times> string) list \<Rightarrow> string list" where
  "loginSchema_issues is_email body =
     (case map_of body ''email'' of
        None \<Rightarrow> [''Required'']
      | Some v \<Rightarrow> if is_email v then [] else [''Invalid email address''])
     @
     (case map_of body ''password'' of
        None \<Rightarrow> [''Required'']
      | Some v \<Rightarrow> if length v \<ge> 1 then [] else [''Password is required''])"

definition zod_message :: "string list \<Rightarrow> string" where
  "zod_message issues = ''ZodError: '' @ concat (map (\<lambda>m. m @ ''; '') issues)"

definition loginSchema_parse :: "(string \<Rightarrow> bool) \<Rightarrow> (string \<times> string) list \<Rightarrow> string + LoginInput" where
  "loginSchema_parse is_email body =
     (case (map_of body ''email'', map_of body ''password'') of
        (Some v, Some w) \<Rightarrow>
          if loginSchema_issues is_email body = []
          then Inr \<lparr>li_email = v, li_password = w\<rparr>
          else Inl (zod_message (loginSchema_issues is_email body))
      | _ \<Rightarrow> Inl (zod_message (loginSchema_issues is_email body)))"

text \<open>\<open>z.string().min(1, message).max(100)\<close> and \<open>z.string().min(1).max(100)\<close>\<close>

definition name_issues :: "string \<Rightarrow> string \<Rightarrow> string list" where
  "name_issues message v =
     (if length v \<ge> 1 then [] else [message])
     @ (if length v \<le> 100 then [] else [''String must contain at most 100 character(s)''])"

definition createStaffSchema_issues :: "(string \<Rightarrow> bool) \<Rightarrow> (string \<times> string) list \<Rightarrow> string list" where
  "createStaffSchema_issues is_email body =
     (case map_of body ''email'' of
        None \<Rightarrow> [''Required'']
      | Some v \<Rightarrow> if is_email v then [] else [''Invalid email address''])
     @
     (case map_of body ''password'' of
        None \<Rightarrow> [''Required'']
      | Some v \<Rightarrow> if length v \<ge> 8 then [] else [''Password must be at least 8 characters''])
     @
     (case map_of body ''firstName'' of
        None \<Rightarrow> [''Required'']
      | Some v \<Rightarrow> name_issues ''First name is required'' v)
     @
     (case map_of body ''lastName'' of
        None \<Rightarrow> [''Required'']
      | Some v \<Rightarrow> name_issues ''Last name is required'' v)"

text \<open>
  The parsed object has the keys of the schema; \<open>create\<close> is called with
  \<open>{...validated, createdBy}\<close>, so the result is given as that argument with
  \<open>createdBy\<close> still undefined.
\<close>

definition createStaffSchema_parse :: "(string \<Rightarrow> bool) \<Rightarrow> (string \<times> string) list \<Rightarrow> string + CreateData" where
  "createStaffSchema_parse is_email body =
     (case (map_of body ''email'', map_of body ''password'',
            map_of body ''firstName'', map_of body ''lastName'') of
        (Some em, Some pw, Some fn, Some ln) \<Rightarrow>
          if createStaffSchema_issues is_email body = []
          then Inr \<lparr>cd_email = em, cd_password = pw, cd_firstName = fn, cd_lastName = ln,
                    cd_phone = map_of body ''phone'',
                    cd_department = map_of body ''department'',
                    cd_position = map_of body ''position'',
                    cd_employeeId = map_of body ''employeeId'', cd_createdBy = None\<rparr>
          else Inl (zod_message (createStaffSchema_issues is_email body))
      | _ \<Rightarrow> Inl (zod_message (createStaffSchema_issues is_email body)))"

definition updateStaffSchema_issues :: "(string \<times> string) list \<Rightarrow> string list" where
  "updateStaffSchema_issues body =
     (case map_of body ''firstName'' of
        None \<Rightarrow> []
      | Some v \<Rightarrow> name_issues ''String must contain at least 1 character(s)'' v)
     @
     (case map_of body ''lastName'' of
        None \<Rightarrow> []
      | Some v \<Rightarrow> name_issues ''String must contain at least 1 character(s)'' v)
     @
     (case map_of body ''status'' of
        None \<Rightarrow> []
      | Some v \<Rightarrow>
          if v \<in> set [''active'', ''inactive'', ''suspended''] then []
          else [''Invalid enum value''])"

definition updateStaffSchema_parse :: "(string \<times> string) list \<Rightarrow> string + UpdateData" where
  "updateStaffSchema_parse body =
     (if updateStaffSchema_issues body = []
      then Inr \<lparr>ud_firstName = map_of body ''firstName'', ud_lastName = map_of body ''lastName'',
                ud_phone = map_of body ''phone'', ud_department = map_of body ''department'',
                ud_position = map_of body ''position'', ud_status = map_of body ''status'',
                ud_updatedBy = None\<rparr>
      else Inl (zod_message (updateStaffSchema_issues body)))"

record ChangePasswordInput =
  cp_currentPassword :: string
  cp_newPassword :: string

definition changePasswordSchema_issues :: "(string \<times> string) list \<Rightarrow> string list" where
  "changePasswordSchema_issues body =
     (case map_of body ''currentPassword'' of
        None \<Rightarrow> [''Required'']
      | Some v \<Rightarrow> if length v \<ge> 1 then [] else [''Current password is required''])
     @
     (case map_of body ''newPassword'' of
        None \<Rightarrow> [''Required'']
      | Some v \<Rightarrow>
          if length v \<ge> 8 then [] else [''New password must be at least 8 characters''])"

definition changePasswordSchema_parse :: "(string \<times> string) list \<Rightarrow> string + ChangePasswordInput" where
  "changePasswordSchema_parse body =
     (case (map_of body ''currentPassword'', map_of body ''newPassword'') of
        (Some v, Some w) \<Rightarrow>
          if changePasswordSchema_issues body = []
          then Inr \<lparr>cp_currentPassword = v, cp_newPassword = w\<rparr>
          else Inl (zod_message (changePasswordSchema_issues body))
      | _ \<Rightarrow> Inl (zod_message (changePasswordSchema_issues body)))"

section \<open>staff.controller.ts\<close>

text \<open>\<open>error.message || fallback\<close>\<close>

definition message_or :: "string \<Rightarrow> string \<Rightarrow> string" where
  "message_or message fallback = (if message = [] then fallback else message)"

text \<open>
  The message of the \<open>TypeError\<close> that \<open>req.staff!.id\<close> throws without an identity,
  written without its quotation marks.
\<close>

definition undefined_id_message :: string where
  "undefined_id_message = ''Cannot read properties of undefined (reading id)''"

text \<open>
  \<open>StaffController.login\<close>. Each reading of a clock within one request gives the same
  value: \<open>jsNow\<close> for \<open>new Date()\<close>, \<open>dbNow\<close> for the store's \<open>NOW()\<close>. Whatever a
  statement of the model throws is caught by the handler's \<open>catch\<close>, which answers 400
  with the message of the exception.
\<close>

definition StaffController_login :: "env \<Rightarrow> request \<Rightarrow> res_state \<Rightarrow> store \<Rightarrow> res_state \<times> store" where
  "StaffController_login e req res db =
     (case loginSchema_parse (isEmail e) (req_body req) of
        Inl message \<Rightarrow> (fail 400 (message_or message ''Login failed'') res, db)
      | Inr validated \<Rightarrow>
          (case StaffModel_findByEmailWithPassword db (li_email validated) of
             None \<Rightarrow> (fail 401 ''Invalid email or password'' res, db)
           | Some staff' \<Rightarrow>
               if (case lockedUntil staff' of None \<Rightarrow> False | Some t \<Rightarrow> t > jsNow e)
               then (fail 403
                 ''Account is temporarily locked due to multiple failed login attempts'' res, db)
               else if status staff' \<noteq> ''active''
               then (fail 403 ''Account is not active'' res, db)
               else
                 let isValidPassword =
                       verifyPassword e (li_password validated) (passwordHash staff') in
                 if \<not> isValidPassword
                 then
                   (case StaffModel_incrementFailedLogins e (sId staff') db of
                      Inl err \<Rightarrow>
                        (fail 400 (message_or (db_message err) ''Login failed'') res, db)
                    | Inr db' \<Rightarrow> (fail 401 ''Invalid email or password'' res, db'))
                 else
                   (case StaffModel_getPermissions db (sId staff') of
                      Inl err \<Rightarrow>
                        (fail 400 (message_or (db_message err) ''Login failed'') res, db)
                    | Inr permissions' \<Rightarrow>
                        (case StaffModel_updateLastLogin e (sId staff') db of
                           Inl err \<Rightarrow>
                             (fail 400 (message_or (db_message err) ''Login failed'') res, db)
                         | Inr db' \<Rightarrow>
                             let token = generateToken e
                                   \<lparr>staffId = sId staff', payloadEmail = email staff',
                                    payloadIsAdmin =
                                      (isSuperAdmin staff' \<or> ''*'' \<in> set permissions'),
                                    payloadPermissions = permissions'\<rparr>
                             in (res_json (LoginBody token
                                   \<lparr>ls_id = sId staff', ls_email = email staff',
                                    ls_firstName = firstName staff',
                                    ls_lastName = lastName staff',
                                    ls_department = department staff',
                                    ls_position = position staff',
                                    ls_isSuperAdmin = isSuperAdmin staff'\<rparr>) res, db')))))"

text \<open>
  \<open>StaffController.create\<close>. \<open>req.staff!.id\<close> is read when the argument of \<open>create\<close>
  is built, after the lookup by e-mail.
\<close>

definition StaffController_create :: "env \<Rightarrow> request \<Rightarrow> res_state \<Rightarrow> store \<Rightarrow> res_state \<times> store" where
  "StaffController_create e req res db =
     (case createStaffSchema_parse (isEmail e) (req_body req) of
        Inl message \<Rightarrow>
          (fail 400 (message_or message ''Failed to create staff member'') res, db)
      | Inr validated \<Rightarrow>
          (case validatePassword e (cd_password validated) of
             (valid, errors) \<Rightarrow>
               if \<not> valid
               then (res_json (ErrorDetailsBody ''Password does not meet requirements'' errors)
                       (res_status 400 res), db)
               else
                 (case StaffModel_findByEmail db (cd_email validated) of
                    Some existingStaff \<Rightarrow> (fail 409 ''Email already in use'' res, db)
                  | None \<Rightarrow>
                      (case req_staff req of
                         None \<Rightarrow>
                           (fail 400 (message_or undefined_id_message
                                        ''Failed to create staff member'') res, db)
                       | Some me \<Rightarrow>
                           (case StaffModel_create e
                                   (validated\<lparr>cd_createdBy := Some (reqId me)\<rparr>) db of
                              Inl err \<Rightarrow>
                                (fail 400 (message_or (db_message err)
                                             ''Failed to create staff member'') res, db)
                            | Inr (staff', db') \<Rightarrow>
                                (res_json (StaffBody staff') (res_status 201 res), db'))))))"

text \<open>
  \<open>StaffController.update\<close>. With \<open>req.params.id\<close> undefined, which the route of this
  handler excludes, the parameter of the statement is \<open>NULL\<close>, which no \<open>id\<close> equals;
  the model answers that case without running the statement.
\<close>

definition StaffController_update :: "env \<Rightarrow> request \<Rightarrow> res_state \<Rightarrow> store \<Rightarrow> res_state \<times> store" where
  "StaffController_update e req res db =
     (case updateStaffSchema_parse (req_body req) of
        Inl message \<Rightarrow>
          (fail 400 (message_or message ''Failed to update staff member'') res, db)
      | Inr validated \<Rightarrow>
          (case req_staff req of
             None \<Rightarrow>
               (fail 400 (message_or undefined_id_message
                            ''Failed to update staff member'') res, db)
           | Some me \<Rightarrow>
               (case params_id req of
                  None \<Rightarrow> (fail 404 ''Staff member not found'' res, db)
                | Some i \<Rightarrow>
                    (case StaffModel_update e i
                            (validated\<lparr>ud_updatedBy := Some (reqId me)\<rparr>) db of
                       Inl err \<Rightarrow>
                         (fail 400 (message_or (db_message err)
                                      ''Failed to update staff member'') res, db)
                     | Inr (None, db') \<Rightarrow> (fail 404 ''Staff member not found'' res, db')
                     | Inr (Some staff', db') \<Rightarrow> (res_json (StaffBody staff') res, db')))))"

text \<open>
  \<open>StaffController.delete\<close>. The guard \<open>id === req.staff!.id\<close> compares two strings.
  \<open>req.staff!.id\<close> throws when no identity is attached, and so does a rejected lookup
  or \<open>DELETE\<close>; all reach the handler's \<open>catch\<close>.
\<close>

definition StaffController_delete :: "request \<Rightarrow> res_state \<Rightarrow> store \<Rightarrow> res_state \<times> store" where
  "StaffController_delete req res db =
     (case req_staff req of
        None \<Rightarrow> (fail 500 ''Failed to delete staff member'' res, db)
      | Some me \<Rightarrow>
          if params_id req = Some (reqId me)
          then (fail 400 ''Cannot delete your own account'' res, db)
          else
            (case params_id req of
               None \<Rightarrow> (fail 404 ''Staff member not found'' res, db)
             | Some i \<Rightarrow>
                 (case StaffModel_findById db i of
                    Inl err \<Rightarrow> (fail 500 ''Failed to delete staff member'' res, db)
                  | Inr None \<Rightarrow> (fail 404 ''Staff member not found'' res, db)
                  | Inr (Some staff') \<Rightarrow>
                      (case StaffModel_delete i db of
                         Inl err \<Rightarrow> (fail 500 ''Failed to delete staff member'' res, db)
                       | Inr db' \<Rightarrow>
                           (res_json (MessageBody ''Staff member deleted successfully'') res,
                            db')))))"

text \<open>\<open>StaffController.changePassword\<close>\<close>

definition StaffController_changePassword :: "env \<Rightarrow> request \<Rightarrow> res_state \<Rightarrow> store \<Rightarrow> res_state \<times> store" where
  "StaffController_changePassword e req res db =
     (case changePasswordSchema_parse (req_body req) of
        Inl message \<Rightarrow> (fail 400 (message_or message ''Failed to change password'') res, db)
      | Inr validated \<Rightarrow>
          (case req_staff req of
             None \<Rightarrow>
               (fail 400 (message_or undefined_id_message ''Failed to change password'') res,
                db)
           | Some me \<Rightarrow>
               let staffId' = reqId me in
               (case StaffModel_findByEmailWithPassword db (reqEmail me) of
                  None \<Rightarrow> (fail 404 ''Staff member not found'' res, db)
                | Some staff' \<Rightarrow>
                    let isValidPassword =
                          verifyPassword e (cp_currentPassword validated) (passwordHash staff')
                    in
                    if \<not> isValidPassword
                    then (fail 401 ''Current password is incorrect'' res, db)
                    else
                      (case validatePassword e (cp_newPassword validated) of
                         (valid, errors) \<Rightarrow>
                           if \<not> valid
                           then (res_json (ErrorDetailsBody
                                             ''New password does not meet requirements'' errors)
                                   (res_status 400 res), db)
                           else
                             (case StaffModel_updatePassword e staffId'
                                     (cp_newPassword validated) db of
                                Inl err \<Rightarrow>
                                  (fail 400 (message_or (db_message err)
                                               ''Failed to change password'') res, db)
                              | Inr db' \<Rightarrow>
                                  (res_json (MessageBody ''Password changed successfully'') res,
                                   db'))))))"

text \<open>
  \<open>StaffController.assignRole\<close>: \<open>!roleId\<close> holds for a missing and for an empty
  \<open>roleId\<close>.
\<close>

definition StaffController_assignRole :: "env \<Rightarrow> request \<Rightarrow> res_state \<Rightarrow> store \<Rightarrow> res_state \<times> store" where
  "StaffController_assignRole e req res db =
     (case map_of (req_body req) ''roleId'' of
        None \<Rightarrow> (fail 400 ''Role ID is required'' res, db)
      | Some roleId \<Rightarrow>
          if roleId = [] then (fail 400 ''Role ID is required'' res, db)
          else
            (case params_id req of
               None \<Rightarrow> (fail 404 ''Staff member not found'' res, db)
             | Some i \<Rightarrow>
                 (case StaffModel_findById db i of
                    Inl err \<Rightarrow> (fail 500 ''Failed to assign role'' res, db)
                  | Inr None \<Rightarrow> (fail 404 ''Staff member not found'' res, db)
                  | Inr (Some staff') \<Rightarrow>
                      (case req_staff req of
                         None \<Rightarrow> (fail 500 ''Failed to assign role'' res, db)
                       | Some me \<Rightarrow>
                           (case StaffModel_assignRole e i roleId (Some (reqId me)) db of
                              Inl err \<Rightarrow> (fail 500 ''Failed to assign role'' res, db)
                            | Inr db' \<Rightarrow>
                                (res_json (MessageBody ''Role assigned successfully'') res,
                                 db'))))))"

text \<open>
  \<open>StaffController.removeRole\<close>. With \<open>req.params.roleId\<close> undefined the parameter of
  the \<open>DELETE\<close> is \<open>NULL\<close>, which no \<open>role_id\<close> equals.
\<close>

definition StaffController_removeRole :: "request \<Rightarrow> res_state \<Rightarrow> store \<Rightarrow> res_state \<times> store" where
  "StaffController_removeRole req res db =
     (case params_id req of
        None \<Rightarrow> (fail 404 ''Staff member not found'' res, db)
      | Some i \<Rightarrow>
          (case StaffModel_findById db i of
             Inl err \<Rightarrow> (fail 500 ''Failed to remove role'' res, db)
           | Inr None \<Rightarrow> (fail 404 ''Staff member not found'' res, db)
           | Inr (Some staff') \<Rightarrow>
               (case params_roleId req of
                  None \<Rightarrow> (res_json (MessageBody ''Role removed successfully'') res, db)
                | Some roleId \<Rightarrow>
                    (case StaffModel_removeRole i roleId db of
                       Inl err \<Rightarrow> (fail 500 ''Failed to remove role'' res, db)
                     | Inr db' \<Rightarrow>
                         (res_json (MessageBody ''Role removed successfully'') res, db')))))"

section \<open>activity-logger.middleware.ts\<close>

text \<open>\<open>v || null\<close> for a string that may be undefined.\<close>

definition or_null :: "string option \<Rightarrow> string option" where
  "or_null v = (case v of None \<Rightarrow> None | Some s \<Rightarrow> if s = [] then None else Some s)"

text \<open>\<open>body?.error\<close>\<close>

definition error_of :: "json_body \<Rightarrow> string option" where
  "error_of b =
     (case b of ErrorBody m \<Rightarrow> Some m | ErrorDetailsBody m ds \<Rightarrow> Some m | _ \<Rightarrow> None)"

text \<open>
  The values the callback hands to the \<open>INSERT\<close>. The callback \<open>res.json\<close> gives to
  \<open>setImmediate\<close> runs after the handler's turn and reads the request and the response
  as they are then.
\<close>

record log_values =
  v_staffId :: "string option"
  v_action :: string
  v_resourceType :: "string option"
  v_resourceId :: "string option"
  v_details :: details
  v_ipAddress :: "string option"
  v_userAgent :: "string option"
  v_status :: string
  v_errorMessage :: "string option"

definition log_entry :: "string \<Rightarrow> string option \<Rightarrow> request \<Rightarrow> res_state \<Rightarrow> json_body \<Rightarrow> log_values" where
  "log_entry action resourceType req res body =
     (let staffId' = or_null (map_option reqId (req_staff req));
          resourceId = or_null (params_id req);
          ipAddress = (case or_null (req_ip req) of
                         Some a \<Rightarrow> Some a
                       | None \<Rightarrow> socket_remoteAddress req);
          userAgent = headers_user_agent req;
          status' = (if statusCode res < 400 then ''success'' else ''error'');
          errorMessage = or_null (error_of body)
      in \<lparr>v_staffId = staffId', v_action = action, v_resourceType = resourceType,
          v_resourceId = resourceId,
          v_details = \<lparr>d_method = req_method req, d_path = req_path req,
                        d_query = req_query req\<rparr>,
          v_ipAddress = ipAddress, v_userAgent = userAgent, v_status = status',
          v_errorMessage = errorMessage\<rparr>)"

text \<open>
  \<open>INSERT INTO staff_activity_logs (staff_id, action, resource_type, resource_id,
     details, ip_address, user_agent, status, error_message) VALUES ($1, ..., $9)\<close>.
  \<open>staff_id\<close> is a \<open>UUID\<close> that references \<open>staff(id)\<close>, \<open>action\<close> and
  \<open>resource_type\<close> are \<open>VARCHAR(100)\<close>, \<open>resource_id\<close> is \<open>VARCHAR(255)\<close>, \<open>details\<close>
  is \<open>JSONB\<close>, \<open>ip_address\<close> is \<open>INET\<close> and \<open>status\<close> is \<open>VARCHAR(50)\<close>; \<open>timestamp\<close>
  takes its default \<open>NOW()\<close>.
\<close>

definition inet_errors :: "env \<Rightarrow> string option \<Rightarrow> db_error list" where
  "inet_errors e v =
     (case v of None \<Rightarrow> [] | Some a \<Rightarrow> if isInet e a then [] else [InvalidInet])"

text \<open>The row the statement stores, for the staff id its first parameter reads as.\<close>

definition log_row_of :: "env \<Rightarrow> log_values \<Rightarrow> uuid option \<Rightarrow> log_row" where
  "log_row_of e v staff_id =
     \<lparr>log_staff_id = staff_id,
      log_action = varchar 100 (v_action v),
      log_resource_type = map_option (varchar 100) (v_resourceType v),
      log_resource_id = map_option (varchar 255) (v_resourceId v),
      log_details = v_details v,
      log_ip_address = v_ipAddress v,
      log_user_agent = v_userAgent v,
      log_status = varchar 50 (v_status v),
      log_error_message = v_errorMessage v,
      log_timestamp = dbNow e\<rparr>"

definition insert_activity_log :: "env \<Rightarrow> log_values \<Rightarrow> store \<Rightarrow> db_error + store" where
  "insert_activity_log e v db =
     (case uuid_param (v_staffId v) of
        Inl err \<Rightarrow> Inl err
      | Inr staff_id \<Rightarrow>
          (case text_errors (Some (v_action v)) @ text_errors (v_resourceType v)
                @ text_errors (v_resourceId v) @ jsonb_errors (v_details v)
                @ inet_errors e (v_ipAddress v) @ text_errors (v_userAgent v)
                @ text_errors (Some (v_status v)) @ text_errors (v_errorMessage v)
                @ varchar_errors 100 (Some (v_action v))
                @ varchar_errors 100 (v_resourceType v)
                @ varchar_errors 255 (v_resourceId v)
                @ varchar_errors 50 (Some (v_status v)) of
             err # _ \<Rightarrow> Inl err
           | [] \<Rightarrow>
               if (case staff_id of None \<Rightarrow> False | Some s \<Rightarrow> s \<notin> staff_ids db)
               then Inl ForeignKeyViolation
               else Inr (db\<lparr>staff_activity_logs :=
                            staff_activity_logs db @ [log_row_of e v staff_id]\<rparr>)))"

text \<open>
  The requests for which the store accepts the insert of the callback: the attached
  identity, if it has an id, names a stored account; the id of the path has no NUL and
  fits \<open>VARCHAR(255)\<close>; method, path and query have no NUL; the address is one
  \<open>INET\<close> reads; the user agent and the error message of the body have no NUL.
\<close>

definition store_accepts :: "env \<Rightarrow> request \<Rightarrow> json_body \<Rightarrow> store \<Rightarrow> bool" where
  "store_accepts e req body db =
     ((case or_null (map_option reqId (req_staff req)) of
         None \<Rightarrow> True
       | Some s \<Rightarrow> (case uuid_in s of None \<Rightarrow> False | Some u \<Rightarrow> u \<in> staff_ids db))
      \<and> (case or_null (params_id req) of
            None \<Rightarrow> True
          | Some i \<Rightarrow> nul \<notin> set i \<and> fits 255 i)
      \<and> nul \<notin> set (req_method req) \<and> nul \<notin> set (req_path req)
      \<and> \<not> list_ex (\<lambda>(k, v). nul \<in> set k \<or> nul \<in> set v) (req_query req)
      \<and> (case (case or_null (req_ip req) of
                  Some a \<Rightarrow> Some a
                | None \<Rightarrow> socket_remoteAddress req) of
            None \<Rightarrow> True
          | Some a \<Rightarrow> isInet e a)
      \<and> (case headers_user_agent req of None \<Rightarrow> True | Some a \<Rightarrow> nul \<notin> set a)
      \<and> (case or_null (error_of body) of None \<Rightarrow> True | Some m \<Rightarrow> nul \<notin> set m))"

text \<open>The callback swallows a failed insert.\<close>

definition log_callback :: "env \<Rightarrow> string \<Rightarrow> string option \<Rightarrow> request \<Rightarrow> res_state \<Rightarrow> json_body \<Rightarrow> store \<Rightarrow> store" where
  "log_callback e action resourceType req res body db =
     (case insert_activity_log e (log_entry action resourceType req res body) db of
        Inl err \<Rightarrow> db
      | Inr db' \<Rightarrow> db')"

text \<open>
  \<open>logActivity(action, resourceType)\<close> replaces \<open>res.json\<close> by a function that schedules
  the callback and then sends the body, and calls \<open>next()\<close>: one callback for every body
  the rest of the chain sends.
\<close>

type_synonym handler = "request \<Rightarrow> res_state \<Rightarrow> store \<Rightarrow> res_state \<times> store"

definition logActivity :: "env \<Rightarrow> string \<Rightarrow> string option \<Rightarrow> handler \<Rightarrow> handler" where
  "logActivity e action resourceType next req res db =
     (case next req res db of
        (res', db') \<Rightarrow>
          (res', fold (log_callback e action resourceType req res')
                   (drop (length (sent res)) (sent res')) db'))"

section \<open>staff.routes.ts\<close>

text \<open>
  The seven routes with a method other than \<open>GET\<close>, all of which list \<open>logActivity\<close>:
  \<open>POST /login\<close>, \<open>PUT /profile/password\<close>, \<open>POST /\<close>, \<open>PUT /:id\<close>, \<open>DELETE /:id\<close>,
  \<open>POST /:id/roles\<close> and \<open>DELETE /:id/roles/:roleId\<close>. The three \<open>GET\<close> routes, which
  list it too, change nothing in the store and are not modelled.
\<close>

datatype endpoint = Login | ChangePassword | Create | Update | Delete | AssignRole | RemoveRole

text \<open>The arguments of \<open>logActivity\<close> and the handler, route by route.\<close>

fun action_of :: "endpoint \<Rightarrow> string" where
  "action_of Login = ''staff.login''"
| "action_of ChangePassword = ''staff.profile.password''"
| "action_of Create = ''staff.create''"
| "action_of Update = ''staff.update''"
| "action_of Delete = ''staff.delete''"
| "action_of AssignRole = ''staff.role.assign''"
| "action_of RemoveRole = ''staff.role.remove''"

fun resourceType_of :: "endpoint \<Rightarrow> string option" where
  "resourceType_of Login = None"
| "resourceType_of ChangePassword = None"
| "resourceType_of ep = Some ''staff''"

fun handler_of :: "env \<Rightarrow> endpoint \<Rightarrow> handler" where
  "handler_of e Login = StaffController_login e"
| "handler_of e ChangePassword = StaffController_changePassword e"
| "handler_of e Create = StaffController_create e"
| "handler_of e Update = StaffController_update e"
| "handler_of e Delete = StaffController_delete"
| "handler_of e AssignRole = StaffController_assignRole e"
| "handler_of e RemoveRole = StaffController_removeRole"

text \<open>
  The middlewares that run before \<open>logActivity\<close>: none on \<open>POST /login\<close>, which is
  declared before \<open>router.use(authenticateStaff)\<close>; \<open>authenticateStaff\<close> on
  \<open>PUT /profile/password\<close>; \<open>authenticateStaff\<close> and then \<open>requirePermission\<close> on the
  other five.
\<close>

fun permission_of :: "endpoint \<Rightarrow> string option" where
  "permission_of Login = None"
| "permission_of ChangePassword = None"
| "permission_of Create = Some ''staff:create''"
| "permission_of Update = Some ''staff:update''"
| "permission_of Delete = Some ''staff:delete''"
| "permission_of AssignRole = Some ''staff:update''"
| "permission_of RemoveRole = Some ''staff:update''"

definition before_logger :: "env \<Rightarrow> endpoint \<Rightarrow> store \<Rightarrow> request \<Rightarrow> res_state \<Rightarrow> mw_result" where
  "before_logger e ep db req res =
     (if ep = Login then Next req
      else
        (case authenticateStaff e db req res of
           Responded res' \<Rightarrow> Responded res'
         | Next req' \<Rightarrow>
             (case permission_of ep of
                None \<Rightarrow> Next req'
              | Some permission \<Rightarrow> requirePermission permission req' res)))"

text \<open>A route: a middleware that answers ends the chain, and the store is as it was.\<close>

definition route :: "env \<Rightarrow> endpoint \<Rightarrow> handler" where
  "route e ep req res db =
     (case before_logger e ep db req res of
        Responded res' \<Rightarrow> (res', db)
      | Next req' \<Rightarrow>
          logActivity e (action_of ep) (resourceType_of ep) (handler_of e ep) req' res db)"

section \<open>Letter case\<close>

text \<open>Two strings differ only in letter case when folding ASCII letters makes them equal.\<close>

definition lower_char :: "char \<Rightarrow> char" where
  "lower_char c =
     (if 65 \<le> (of_char c :: nat) \<and> (of_char c :: nat) \<le> 90
      then char_of ((of_char c :: nat) + 32) else c)"

definition same_up_to_case :: "string \<Rightarrow> string \<Rightarrow> bool" where
  "same_up_to_case a b = (map lower_char a = map lower_char b)"

section \<open>Example data\<close>

text \<open>
  A store with four accounts: \<open>alice\<close> has four failed attempts, \<open>bob\<close> is locked
  until after \<open>jsNow\<close>, \<open>dave\<close> has a lockout that has expired, \<open>erin\<close> is
  suspended. The example \<open>verifyToken\<close> accepts \<open>jwt:\<close> followed by a staff id, with
  the permission \<open>staff:read\<close>, and \<open>adm:\<close> followed by a staff id, with every
  permission. The example \<open>isInet\<close> accepts dotted decimal text.
\<close>

definition alice_id :: uuid where
  "alice_id = Abs_uuid ''a0000000-0000-4000-8000-000000000001''"

definition bob_id :: uuid where
  "bob_id = Abs_uuid ''b0000000-0000-4000-8000-000000000002''"

definition dave_id :: uuid where
  "dave_id = Abs_uuid ''d0000000-0000-4000-8000-000000000003''"

definition erin_id :: uuid where
  "erin_id = Abs_uuid ''e0000000-0000-4000-8000-000000000004''"

definition nobody_id :: uuid where
  "nobody_id = Abs_uuid ''f0000000-0000-4000-8000-000000000007''"

definition manager_role_id :: uuid where
  "manager_role_id = Abs_uuid ''c0000000-0000-4000-8000-00000000000a''"

definition example_env :: env where
  "example_env =
     \<lparr>jsNow = 1000000, dbNow = 1000005,
      isEmail = (\<lambda>s. CHR ''@'' \<in> set s),
      verifyPassword = (\<lambda>p h. h = ''bcrypt:'' @ p),
      hashPassword = (\<lambda>p. ''bcrypt:'' @ p),
      validatePassword = (\<lambda>p. if length p \<ge> 8 then (True, []) else (False, [''too short''])),
      generateToken = (\<lambda>p. ''jwt:'' @ staffId p),
      verifyToken = (\<lambda>t. if take 4 t = ''jwt:''
                          then Some \<lparr>staffId = drop 4 t, payloadEmail = ''a@x.com'',
                                     payloadIsAdmin = False,
                                     payloadPermissions = [''staff:read'']\<rparr>
                          else if take 4 t = ''adm:''
                          then Some \<lparr>staffId = drop 4 t, payloadEmail = ''a@x.com'',
                                     payloadIsAdmin = True, payloadPermissions = [''*'']\<rparr>
                          else None),
      newId = Abs_uuid ''90000000-0000-4000-8000-000000000009'',
      isInet = (\<lambda>a. a \<noteq> [] \<and> set a \<subseteq> set ''0123456789.'')\<rparr>"

definition account :: "uuid \<Rightarrow> string \<Rightarrow> string \<Rightarrow> int \<Rightarrow> timestamp option \<Rightarrow> staff_row" where
  "account i em st c l =
     \<lparr>id_col = i, email_col = em, password_hash = ''bcrypt:Secure1!A'',
      first_name = ''Test'', last_name = ''User'', phone_col = None,
      department_col = None, position_col = None, employee_id = None,
      status_col = st, is_super_admin = False, last_login_at = None,
      password_changed_at = None, failed_login_attempts = c, locked_until = l,
      created_at = 0, updated_at = 0, created_by = None, updated_by = None\<rparr>"

definition alice :: staff_row where
  "alice = account alice_id ''a@x.com'' ''active'' 4 None"

definition bob :: staff_row where
  "bob = account bob_id ''b@x.com'' ''active'' 5 (Some 2000000)"

definition dave :: staff_row where
  "dave = account dave_id ''d@x.com'' ''active'' 2 (Some 500)"

definition erin :: staff_row where
  "erin = account erin_id ''e@x.com'' ''suspended'' 0 None"

definition example_store :: store where
  "example_store =
     \<lparr>staff = [alice, bob, dave, erin],
      staff_roles = [\<lparr>role_id_col = manager_role_id, role_name = ''Manager'',
                      role_permissions = [''staff:read'', ''staff:update'']\<rparr>],
      staff_role_assignments = [],
      staff_activity_logs = []\<rparr>"

definition login_request :: "string \<Rightarrow> string \<Rightarrow> request" where
  "login_request em pw =
     \<lparr>headers_authorization = None, headers_user_agent = Some ''curl'',
      req_body = [(''email'', em), (''password'', pw)],
      params_id = None, params_roleId = None, req_method = ''POST'', req_path = ''/login'',
      req_query = [], req_ip = Some ''127.0.0.1'', socket_remoteAddress = None,
      req_staff = None\<rparr>"

definition delete_request :: "string \<Rightarrow> string \<Rightarrow> request" where
  "delete_request tok target =
     \<lparr>headers_authorization = Some (''Bearer '' @ tok), headers_user_agent = Some ''curl'',
      req_body = [], params_id = Some target, params_roleId = None,
      req_method = ''DELETE'', req_path = ''/'' @ target,
      req_query = [], req_ip = Some ''127.0.0.1'', socket_remoteAddress = None,
      req_staff = None\<rparr>"

definition request_with_permissions :: "string list \<Rightarrow> request" where
  "request_with_permissions ps =
     (delete_request ''jwt:a0000000-0000-4000-8000-000000000001''
        ''d0000000-0000-4000-8000-000000000003'')
       \<lparr>req_staff := Some \<lparr>reqId = ''a0000000-0000-4000-8000-000000000001'',
                            reqEmail = ''a@x.com'', isAdmin = False, permissions = ps\<rparr>\<rparr>"

text \<open>A path id of 300 characters.\<close>

definition long_id :: string where
  "long_id = replicate 300 CHR ''x''"

definition res0 :: res_state where
  "res0 = \<lparr>statusCode = 200, sent = []\<rparr>"

section \<open>Facts about the store\<close>

subsection \<open>The text of a \<open>UUID\<close>\<close>

text \<open>
  What \<open>string_to_uuid\<close> returns reads as itself: every text that reads as a \<open>UUID\<close>
  reads as a value of the type.
\<close>

lemma lower_hex_simps:
  "lower_hex c \<Longrightarrow> isxdigit c"
  "lower_hex c \<Longrightarrow> tolower_hex c = c"
  "lower_hex c \<Longrightarrow> (c = CHR ''-'') = False"
  "lower_hex c \<Longrightarrow> (c = CHR ''{'') = False"
  by (auto simp: lower_hex_def isxdigit_def)

lemma hex_lower: "isxdigit a \<Longrightarrow> lower_hex (tolower_hex a)"
  by (auto simp: lower_hex_def isxdigit_def tolower_hex_def)

lemma read_groups_Suc:
  assumes "read_groups (Suc m) src = Some (digits, rest)"
  shows "\<exists>a b c d src' ds. digits = a # b # c # d # ds
          \<and> lower_hex a \<and> lower_hex b \<and> lower_hex c \<and> lower_hex d
          \<and> read_groups m src' = Some (ds, rest)"
  using assms
  by (elim read_groups.elims) (auto simp: hex_lower split: if_splits option.splits)

lemma canonical_digits:
  assumes "lower_hex a1" "lower_hex a2" "lower_hex a3" "lower_hex a4" "lower_hex b1" "lower_hex b2" "lower_hex b3" "lower_hex b4" "lower_hex c1" "lower_hex c2" "lower_hex c3" "lower_hex c4" "lower_hex d1" "lower_hex d2" "lower_hex d3" "lower_hex d4" "lower_hex e1" "lower_hex e2" "lower_hex e3" "lower_hex e4" "lower_hex f1" "lower_hex f2" "lower_hex f3" "lower_hex f4" "lower_hex g1" "lower_hex g2" "lower_hex g3" "lower_hex g4" "lower_hex h1" "lower_hex h2" "lower_hex h3" "lower_hex h4"
  shows "string_to_uuid (uuid_text [a1, a2, a3, a4, b1, b2, b3, b4, c1, c2, c3, c4, d1, d2, d3, d4, e1, e2, e3, e4, f1, f2, f3, f4, g1, g2, g3, g4, h1, h2, h3, h4]) = Some (uuid_text [a1, a2, a3, a4, b1, b2, b3, b4, c1, c2, c3, c4, d1, d2, d3, d4, e1, e2, e3, e4, f1, f2, f3, f4, g1, g2, g3, g4, h1, h2, h3, h4])"
  using assms
  by (simp add: string_to_uuid_def uuid_text_def lower_hex_simps eval_nat_numeral)


lemma string_to_uuid_canonical:
  assumes "string_to_uuid t = Some s"
  shows "string_to_uuid s = Some s"
proof -
  obtain src digits rest where r: "read_groups 8 src = Some (digits, rest)"
    and s: "s = uuid_text digits"
    using assms by (auto simp: string_to_uuid_def Let_def split: option.splits if_splits)
  have r0: "read_groups (Suc (Suc (Suc (Suc (Suc (Suc (Suc (Suc 0)))))))) src = Some (digits, rest)"
    using r by (simp add: eval_nat_numeral)
  obtain a1 a2 a3 a4 srca dsa where a: "digits = a1 # a2 # a3 # a4 # dsa"
      "lower_hex a1" "lower_hex a2" "lower_hex a3" "lower_hex a4"
      and ra: "read_groups (Suc (Suc (Suc (Suc (Suc (Suc (Suc 0))))))) srca = Some (dsa, rest)"
    using read_groups_Suc [OF r0] by blast
  obtain b1 b2 b3 b4 srcb dsb where b: "dsa = b1 # b2 # b3 # b4 # dsb"
      "lower_hex b1" "lower_hex b2" "lower_hex b3" "lower_hex b4"
      and rb: "read_groups (Suc (Suc (Suc (Suc (Suc (Suc 0)))))) srcb = Some (dsb, rest)"
    using read_groups_Suc [OF ra] by blast
  obtain c1 c2 c3 c4 srcc dsc where c: "dsb = c1 # c2 # c3 # c4 # dsc"
      "lower_hex c1" "lower_hex c2" "lower_hex c3" "lower_hex c4"
      and rc: "read_groups (Suc (Suc (Suc (Suc (Suc 0))))) srcc = Some (dsc, rest)"
    using read_groups_Suc [OF rb] by blast
  obtain d1 d2 d3 d4 srcd dsd where d: "dsc = d1 # d2 # d3 # d4 # dsd"
      "lower_hex d1" "lower_hex d2" "lower_hex d3" "lower_hex d4"
      and rd: "read_groups (Suc (Suc (Suc (Suc 0)))) srcd = Some (dsd, rest)"
    using read_groups_Suc [OF rc] by blast
  obtain e1 e2 e3 e4 srce dse where e: "dsd = e1 # e2 # e3 # e4 # dse"
      "lower_hex e1" "lower_hex e2" "lower_hex e3" "lower_hex e4"
      and re: "read_groups (Suc (Suc (Suc 0))) srce = Some (dse, rest)"
    using read_groups_Suc [OF rd] by blast
  obtain f1 f2 f3 f4 srcf dsf where f: "dse = f1 # f2 # f3 # f4 # dsf"
      "lower_hex f1" "lower_hex f2" "lower_hex f3" "lower_hex f4"
      and rf: "read_groups (Suc (Suc 0)) srcf = Some (dsf, rest)"
    using read_groups_Suc [OF re] by blast
  obtain g1 g2 g3 g4 srcg dsg where g: "dsf = g1 # g2 # g3 # g4 # dsg"
      "lower_hex g1" "lower_hex g2" "lower_hex g3" "lower_hex g4"
      and rg: "read_groups (Suc 0) srcg = Some (dsg, rest)"
    using read_groups_Suc [OF rf] by blast
  obtain h1 h2 h3 h4 srch dsh where h: "dsg = h1 # h2 # h3 # h4 # dsh"
      "lower_hex h1" "lower_hex h2" "lower_hex h3" "lower_hex h4"
      and rh: "read_groups (0) srch = Some (dsh, rest)"
    using read_groups_Suc [OF rg] by blast
  have "dsh = []"
    using rh by simp
  then have "digits = [a1, a2, a3, a4, b1, b2, b3, b4, c1, c2, c3, c4, d1, d2, d3, d4, e1, e2, e3, e4, f1, f2, f3, f4, g1, g2, g3, g4, h1, h2, h3, h4]"
    using a(1) b(1) c(1) d(1) e(1) f(1) g(1) h(1) by simp
  then show ?thesis
    unfolding s using canonical_digits [OF a(2-5) b(2-5) c(2-5) d(2-5) e(2-5) f(2-5) g(2-5) h(2-5)] by simp
qed

lemma uuid_in_out: "uuid_in (uuid_out u) = Some u"
  using uuid_out [of u] by (simp add: uuid_in_def uuid_out_inverse)

lemma uuid_in_text: "(uuid_in t = Some u) = (string_to_uuid t = Some (uuid_out u))"
proof
  assume "uuid_in t = Some u"
  then obtain s where s: "string_to_uuid t = Some s" and u: "u = Abs_uuid s"
    by (auto simp: uuid_in_def)
  have "uuid_out u = s"
    unfolding u using string_to_uuid_canonical [OF s] by (simp add: Abs_uuid_inverse)
  then show "string_to_uuid t = Some (uuid_out u)" using s by simp
next
  assume "string_to_uuid t = Some (uuid_out u)"
  then show "uuid_in t = Some u" by (simp add: uuid_in_def uuid_out_inverse)
qed

subsection \<open>Lists and rows\<close>

lemma uuid_in_Abs: "string_to_uuid t = Some s \<Longrightarrow> uuid_in t = Some (Abs_uuid s)"
  by (simp add: uuid_in_def)

lemma uuid_out_Abs: "string_to_uuid s = Some s \<Longrightarrow> uuid_out (Abs_uuid s) = s"
  by (simp add: Abs_uuid_inverse)

lemma find_map_keep:
  assumes "\<And>x. P (g x) = P x"
  shows "find P (map g xs) = map_option g (find P xs)"
  using assms by (induction xs) auto

lemma find_unique:
  assumes "distinct (map k xs)" and "r \<in> set xs"
  shows "find (\<lambda>x. k x = k r) xs = Some r"
  using assms by (induction xs) (auto simp: image_iff)

lemma filter_unique:
  assumes "distinct (map k xs)" and "r \<in> set xs"
  shows "filter (\<lambda>x. k x = k r) xs = [r]"
  using assms
proof (induction xs)
  case Nil
  then show ?case by simp
next
  case (Cons a xs)
  show ?case
  proof (cases "a = r")
    case True
    have "\<And>x. x \<in> set xs \<Longrightarrow> k x \<noteq> k r"
      using Cons.prems True by (auto simp: image_iff)
    then have "filter (\<lambda>x. k x = k r) xs = []"
      by (simp add: filter_empty_conv)
    with True show ?thesis by simp
  next
    case False
    then have "r \<in> set xs" using Cons.prems by simp
    moreover have "k a \<noteq> k r"
      using Cons.prems \<open>r \<in> set xs\<close> by (auto simp: image_iff)
    ultimately show ?thesis using Cons by simp
  qed
qed

lemma filter_key_length:
  assumes "distinct (map k xs)"
  shows "length (filter (\<lambda>x. k x = v) xs) \<le> 1"
  using assms by (induction xs) (auto simp: filter_empty_conv image_iff)

lemma list_ex_filter: "list_ex P xs \<Longrightarrow> filter P xs \<noteq> []"
  by (induction xs) auto

lemma first_row_Some: "first_row xs = Some x \<Longrightarrow> x \<in> set xs"
  by (cases xs) auto

lemma row_of_update:
  assumes "\<And>r. id_col (f r) = id_col r"
  shows "row_of (update_staff_where_id now i f db) j =
           map_option (\<lambda>r. if id_col r = i then (f r)\<lparr>updated_at := now\<rparr> else r) (row_of db j)"
proof -
  have "\<And>x. (id_col (if id_col x = i then (f x)\<lparr>updated_at := now\<rparr> else x) = j) = (id_col x = j)"
    using assms by simp
  then show ?thesis
    unfolding row_of_def update_staff_where_id_def
    by (simp add: find_map_keep [where P = "\<lambda>r. id_col r = j"])
qed

lemma row_of_id: "row_of db j = Some r \<Longrightarrow> id_col r = j"
  unfolding row_of_def by (auto simp: find_Some_iff)

lemma row_of_member:
  assumes "distinct (map id_col (staff db))" and "r \<in> set (staff db)"
  shows "row_of db (id_col r) = Some r"
  using find_unique [OF assms] by (simp add: row_of_def)

lemma sel_pw [simp]:
  "sId (select_StaffWithPassword r) = uuid_out (id_col r)"
  "email (select_StaffWithPassword r) = email_col r"
  "status (select_StaffWithPassword r) = status_col r"
  "passwordHash (select_StaffWithPassword r) = password_hash r"
  "failedLoginAttempts (select_StaffWithPassword r) = failed_login_attempts r"
  "lockedUntil (select_StaffWithPassword r) = locked_until r"
  by (simp_all add: select_StaffWithPassword_def)

lemma sel_staff [simp]:
  "sId (select_Staff r) = uuid_out (id_col r)"
  "email (select_Staff r) = email_col r"
  "status (select_Staff r) = status_col r"
  by (simp_all add: select_Staff_def)

lemma res_json_sent [simp]: "sent (res_json b res) = sent res @ [b]"
  by (simp add: res_json_def)

lemma fail_sent [simp]: "sent (fail n m res) = sent res @ [ErrorBody m]"
  by (simp add: fail_def res_json_def res_status_def)

lemma fail_status [simp]: "statusCode (fail n m res) = n"
  by (simp add: fail_def res_json_def res_status_def)

lemma res_json_status [simp]: "statusCode (res_json b res) = statusCode res"
  by (simp add: res_json_def)

lemma res_status_sent [simp]: "sent (res_status n res) = sent res"
  by (simp add: res_status_def)

subsection \<open>Lookups\<close>

lemma findByEmail_member:
  assumes "distinct (map email_col (staff db))" and "r \<in> set (staff db)"
  shows "StaffModel_findByEmail db (email_col r) = Some (select_Staff r)"
  using filter_unique [OF assms] by (simp add: StaffModel_findByEmail_def)

lemma findByEmail_Some:
  assumes "StaffModel_findByEmail db x = Some s"
  shows "email s = x"
  using first_row_Some [OF assms [unfolded StaffModel_findByEmail_def]] by auto

lemma findByEmailWithPassword_member:
  assumes "distinct (map email_col (staff db))" and "r \<in> set (staff db)"
  shows "StaffModel_findByEmailWithPassword db (email_col r) = Some (select_StaffWithPassword r)"
  using filter_unique [OF assms] by (simp add: StaffModel_findByEmailWithPassword_def)

lemma findByEmailWithPassword_Some:
  assumes "StaffModel_findByEmailWithPassword db x = Some s"
  shows "\<exists>r \<in> set (staff db). s = select_StaffWithPassword r \<and> email_col r = x"
  using first_row_Some [OF assms [unfolded StaffModel_findByEmailWithPassword_def]] by auto

lemma findByEmailWithPassword_email:
  assumes "StaffModel_findByEmailWithPassword db x = Some s"
  shows "email s = x"
  using findByEmailWithPassword_Some [OF assms] by auto

lemma findByEmailWithPassword_unknown:
  assumes "x \<notin> set (map email_col (staff db))"
  shows "StaffModel_findByEmailWithPassword db x = None"
proof -
  have "filter (\<lambda>r. email_col r = x) (staff db) = []"
    using assms by (auto simp: filter_empty_conv)
  then show ?thesis by (simp add: StaffModel_findByEmailWithPassword_def)
qed

subsection \<open>What the two statements of the login path do to the counter and the lockout\<close>

lemma set_failed_login_id [simp]: "id_col (set_failed_login e r) = id_col r"
  by (simp add: set_failed_login_def)

lemma set_last_login_id [simp]: "id_col (set_last_login e r) = id_col r"
  by (simp add: set_last_login_def)

lemma incrementFailedLogins_out:
  "StaffModel_incrementFailedLogins e (uuid_out u) db =
     Inr (update_staff_where_id (dbNow e) u (set_failed_login e) db)"
  by (simp add: StaffModel_incrementFailedLogins_def uuid_in_out)

lemma updateLastLogin_out:
  "StaffModel_updateLastLogin e (uuid_out u) db =
     Inr (update_staff_where_id (dbNow e) u (set_last_login e) db)"
  by (simp add: StaffModel_updateLastLogin_def uuid_in_out)

lemma getPermissions_throws: "StaffModel_getPermissions db i = Inl CannotCoerce"
  by (simp add: StaffModel_getPermissions_def can_cast_def permissions_type_def)

lemma counter_incr:
  "counter_of (update_staff_where_id now i (set_failed_login e) db) j =
     map_option (\<lambda>c. if j = i then c + 1 else c) (counter_of db j)"
  by (cases "row_of db j")
     (auto simp: counter_of_def row_of_update set_failed_login_def dest: row_of_id)

lemma lockout_incr:
  "lockout_of (update_staff_where_id now i (set_failed_login e) db) i =
     (case row_of db i of
        None \<Rightarrow> None
      | Some r \<Rightarrow> Some (if failed_login_attempts r \<ge> 4
                         then Some (dbNow e + 30 * 60 * 1000) else locked_until r))"
  by (cases "row_of db i")
     (auto simp: lockout_of_def row_of_update set_failed_login_def
        thirty_minutes_def dest: row_of_id)

lemma counter_reset:
  "counter_of (update_staff_where_id now i (set_last_login e) db) j =
     map_option (\<lambda>c. if j = i then 0 else c) (counter_of db j)"
  by (cases "row_of db j")
     (auto simp: counter_of_def row_of_update set_last_login_def dest: row_of_id)

lemma lockout_reset:
  "lockout_of (update_staff_where_id now i (set_last_login e) db) i =
     map_option (\<lambda>r. None) (row_of db i)"
  by (cases "row_of db i")
     (auto simp: lockout_of_def row_of_update set_last_login_def dest: row_of_id)

lemma row_of_incr_other:
  "j \<noteq> i \<Longrightarrow> row_of (update_staff_where_id now i (set_failed_login e) db) j = row_of db j"
  by (cases "row_of db j") (auto simp: row_of_update dest: row_of_id)

lemma update_logs:
  "staff_activity_logs (update_staff_where_id now i f db) = staff_activity_logs db"
  by (simp add: update_staff_where_id_def)

subsection \<open>The branches of the login handler\<close>

lemma login_unknown_email:
  assumes "loginSchema_parse (isEmail e) (req_body req) = Inr v"
    and "li_email v \<notin> set (map email_col (staff db))"
  shows "StaffController_login e req res db = (fail 401 ''Invalid email or password'' res, db)"
  using assms(1) findByEmailWithPassword_unknown [OF assms(2)]
  by (simp add: StaffController_login_def)

lemma login_wrong_password:
  assumes "distinct (map email_col (staff db))" and "r \<in> set (staff db)"
    and "loginSchema_parse (isEmail e) (req_body req) = Inr \<lparr>li_email = email_col r, li_password = pw\<rparr>"
    and "status_col r = ''active''"
    and "\<not> (case locked_until r of None \<Rightarrow> False | Some t \<Rightarrow> t > jsNow e)"
    and "\<not> verifyPassword e pw (password_hash r)"
  shows "StaffController_login e req res db =
           (fail 401 ''Invalid email or password'' res,
            update_staff_where_id (dbNow e) (id_col r) (set_failed_login e) db)"
  using assms(3-6) findByEmailWithPassword_member [OF assms(1,2)]
  by (simp add: StaffController_login_def incrementFailedLogins_out)

lemma login_correct_password:
  assumes "distinct (map email_col (staff db))" and "r \<in> set (staff db)"
    and "loginSchema_parse (isEmail e) (req_body req) = Inr \<lparr>li_email = email_col r, li_password = pw\<rparr>"
    and "status_col r = ''active''"
    and "\<not> (case locked_until r of None \<Rightarrow> False | Some t \<Rightarrow> t > jsNow e)"
    and "verifyPassword e pw (password_hash r)"
  shows "StaffController_login e req res db =
           (fail 400 ''cannot cast type jsonb to text[]'' res, db)"
  using assms(3-6) findByEmailWithPassword_member [OF assms(1,2)]
  by (simp add: StaffController_login_def getPermissions_throws message_or_def)

text \<open>Every run of the handler takes one of five exits.\<close>

lemma login_cases:
  assumes "StaffController_login e req res db = (res', db')"
  shows "(db' = db \<and> (\<exists>m. res' = fail 400 m res))
       \<or> (db' = db \<and> res' = fail 401 ''Invalid email or password'' res)
       \<or> (db' = db \<and> res' = fail 403
             ''Account is temporarily locked due to multiple failed login attempts'' res)
       \<or> (db' = db \<and> res' = fail 403 ''Account is not active'' res)
       \<or> (\<exists>r \<in> set (staff db).
             \<not> (case locked_until r of None \<Rightarrow> False | Some t \<Rightarrow> t > jsNow e)
             \<and> db' = update_staff_where_id (dbNow e) (id_col r) (set_failed_login e) db
             \<and> res' = fail 401 ''Invalid email or password'' res)"
proof (cases "loginSchema_parse (isEmail e) (req_body req)")
  case (Inl m)
  then have "db' = db \<and> res' = fail 400 (message_or m ''Login failed'') res"
    using assms by (auto simp: StaffController_login_def)
  then show ?thesis by blast
next
  case (Inr validated)
  show ?thesis
  proof (cases "StaffModel_findByEmailWithPassword db (li_email validated)")
    case None
    then show ?thesis using assms Inr by (auto simp: StaffController_login_def)
  next
    case (Some s)
    then obtain r where r: "r \<in> set (staff db)" "s = select_StaffWithPassword r"
      using findByEmailWithPassword_Some by blast
    let ?locked = "case lockedUntil s of None \<Rightarrow> False | Some t \<Rightarrow> t > jsNow e"
    let ?ok = "verifyPassword e (li_password validated) (passwordHash s)"
    consider "?locked" | "\<not> ?locked" "status s \<noteq> ''active''"
      | "\<not> ?locked" "status s = ''active''" "\<not> ?ok"
      | "\<not> ?locked" "status s = ''active''" "?ok"
      by blast
    then show ?thesis
    proof cases
      case 1
      then show ?thesis using assms Inr Some by (auto simp: StaffController_login_def)
    next
      case 2
      then show ?thesis using assms Inr Some by (auto simp: StaffController_login_def)
    next
      case 3
      then have "db' = update_staff_where_id (dbNow e) (id_col r) (set_failed_login e) db
                 \<and> res' = fail 401 ''Invalid email or password'' res"
        using assms Inr Some r(2)
        by (auto simp: StaffController_login_def incrementFailedLogins_out)
      moreover have "\<not> (case locked_until r of None \<Rightarrow> False | Some t \<Rightarrow> t > jsNow e)"
        using 3(1) r(2) by simp
      ultimately show ?thesis using r(1) by blast
    next
      case 4
      then have "db' = db
          \<and> res' = fail 400 (message_or (db_message CannotCoerce) ''Login failed'') res"
        using assms Inr Some r(2)
        by (auto simp: StaffController_login_def getPermissions_throws)
      then show ?thesis by blast
    qed
  qed
qed

lemma login_sends_once: "\<exists>b. sent (fst (StaffController_login e req res db)) = sent res @ [b]"
proof -
  obtain res' db' where r: "StaffController_login e req res db = (res', db')"
    by (cases "StaffController_login e req res db")
  from login_cases [OF r] show ?thesis using r by auto
qed

text \<open>No login, for whichever account, touches the row of an account that is locked.\<close>

lemma login_keeps_locked_row:
  assumes "distinct (map id_col (staff db))" and "r \<in> set (staff db)"
    and "locked_until r = Some t" and "t > jsNow e"
  shows "row_of (snd (StaffController_login e req res db)) (id_col r) = Some r"
proof -
  obtain res' db' where l: "StaffController_login e req res db = (res', db')"
    by (cases "StaffController_login e req res db")
  have row: "row_of db (id_col r) = Some r"
    using row_of_member [OF assms(1,2)] .
  have other: "id_col x \<noteq> id_col r"
    if "x \<in> set (staff db)"
      and "\<not> (case locked_until x of None \<Rightarrow> False | Some t \<Rightarrow> t > jsNow e)" for x
  proof
    assume "id_col x = id_col r"
    then have "row_of db (id_col r) = Some x"
      using row_of_member [OF assms(1) that(1)] by simp
    then have "x = r" using row by simp
    then show False using that(2) assms(3,4) by simp
  qed
  from login_cases [OF l] have "row_of db' (id_col r) = Some r"
  proof (elim disjE exE bexE conjE, goal_cases)
    case (5 x)
    then show ?case using other [of x] row by (simp add: row_of_incr_other)
  qed (simp_all add: row)
  then show ?thesis using l by simp
qed

subsection \<open>The example data\<close>

lemmas fixtures = example_env_def account_def alice_def bob_def dave_def erin_def
  example_store_def
  login_request_def delete_request_def request_with_permissions_def res0_def

lemmas parse_uuid = string_to_uuid_def uuid_text_def isxdigit_def tolower_hex_def
  eval_nat_numeral

lemma alice_text:
  "uuid_in ''a0000000-0000-4000-8000-000000000001'' = Some alice_id"
  "uuid_in ''A0000000-0000-4000-8000-000000000001'' = Some alice_id"
  "uuid_out alice_id = ''a0000000-0000-4000-8000-000000000001''"
  unfolding alice_id_def
  by (rule uuid_in_Abs, simp add: parse_uuid, rule uuid_in_Abs, simp add: parse_uuid,
      rule uuid_out_Abs, simp add: parse_uuid)

lemma bob_text:
  "uuid_in ''b0000000-0000-4000-8000-000000000002'' = Some bob_id"
  "uuid_out bob_id = ''b0000000-0000-4000-8000-000000000002''"
  unfolding bob_id_def
  by (rule uuid_in_Abs, simp add: parse_uuid, rule uuid_out_Abs, simp add: parse_uuid)

lemma dave_text:
  "uuid_in ''d0000000-0000-4000-8000-000000000003'' = Some dave_id"
  "uuid_out dave_id = ''d0000000-0000-4000-8000-000000000003''"
  unfolding dave_id_def
  by (rule uuid_in_Abs, simp add: parse_uuid, rule uuid_out_Abs, simp add: parse_uuid)

lemma erin_text:
  "uuid_in ''e0000000-0000-4000-8000-000000000004'' = Some erin_id"
  "uuid_out erin_id = ''e0000000-0000-4000-8000-000000000004''"
  unfolding erin_id_def
  by (rule uuid_in_Abs, simp add: parse_uuid, rule uuid_out_Abs, simp add: parse_uuid)

lemma manager_role_text:
  "uuid_in ''c0000000-0000-4000-8000-00000000000a'' = Some manager_role_id"
  "uuid_out manager_role_id = ''c0000000-0000-4000-8000-00000000000a''"
  unfolding manager_role_id_def
  by (rule uuid_in_Abs, simp add: parse_uuid, rule uuid_out_Abs, simp add: parse_uuid)

lemma nobody_text:
  "uuid_in ''f0000000-0000-4000-8000-000000000007'' = Some nobody_id"
  "uuid_out nobody_id = ''f0000000-0000-4000-8000-000000000007''"
  unfolding nobody_id_def
  by (rule uuid_in_Abs, simp add: parse_uuid, rule uuid_out_Abs, simp add: parse_uuid)

lemma example_ids_distinct:
  "alice_id \<noteq> bob_id" "alice_id \<noteq> dave_id" "alice_id \<noteq> erin_id"
  "bob_id \<noteq> alice_id" "bob_id \<noteq> dave_id" "bob_id \<noteq> erin_id"
  "dave_id \<noteq> alice_id" "dave_id \<noteq> bob_id" "dave_id \<noteq> erin_id"
  "erin_id \<noteq> alice_id" "erin_id \<noteq> bob_id" "erin_id \<noteq> dave_id"
  "nobody_id \<noteq> alice_id" "nobody_id \<noteq> bob_id" "nobody_id \<noteq> dave_id"
  "nobody_id \<noteq> erin_id"
  "alice_id \<noteq> nobody_id" "bob_id \<noteq> nobody_id" "dave_id \<noteq> nobody_id"
  "erin_id \<noteq> nobody_id"
  using alice_text(3) bob_text(2) dave_text(2) erin_text(2) nobody_text(2) by auto

lemma example_constraints: "constraints_hold example_store"
  by (simp add: constraints_hold_def fixtures example_ids_distinct)

lemma example_members:
  "alice \<in> set (staff example_store)"
  "bob \<in> set (staff example_store)"
  "dave \<in> set (staff example_store)"
  "erin \<in> set (staff example_store)"
  by (simp_all add: example_store_def)

lemma example_parse:
  "CHR ''@'' \<in> set em \<Longrightarrow> pw \<noteq> [] \<Longrightarrow>
   loginSchema_parse (isEmail example_env) (req_body (login_request em pw))
     = Inr \<lparr>li_email = em, li_password = pw\<rparr>"
  by (simp add: loginSchema_parse_def loginSchema_issues_def fixtures Suc_le_eq)

lemma example_rows:
  "row_of example_store alice_id = Some alice"
  "row_of example_store bob_id = Some bob"
  "row_of example_store dave_id = Some dave"
  "row_of example_store erin_id = Some erin"
  by (simp_all add: row_of_def fixtures example_ids_distinct)

lemma example_findById:
  "StaffModel_findById example_store ''a0000000-0000-4000-8000-000000000001''
     = Inr (Some (select_Staff alice))"
  "StaffModel_findById example_store ''A0000000-0000-4000-8000-000000000001''
     = Inr (Some (select_Staff alice))"
  "StaffModel_findById example_store ''e0000000-0000-4000-8000-000000000004''
     = Inr (Some (select_Staff erin))"
  "StaffModel_findById example_store ''f0000000-0000-4000-8000-000000000007'' = Inr None"
  by (simp_all add: StaffModel_findById_def alice_text erin_text nobody_text fixtures
      example_ids_distinct)

lemma not_uuid: "uuid_in ''u7'' = None"
  by (simp add: uuid_in_def parse_uuid)

lemma example_verifyToken:
  "verifyToken example_env ''forged'' = None"
  "verifyToken example_env (''jwt:'' @ i) =
      Some \<lparr>staffId = i, payloadEmail = ''a@x.com'', payloadIsAdmin = False,
            payloadPermissions = [''staff:read'']\<rparr>"
  "verifyToken example_env (''adm:'' @ i) =
      Some \<lparr>staffId = i, payloadEmail = ''a@x.com'', payloadIsAdmin = True,
            payloadPermissions = [''*'']\<rparr>"
  by (simp_all add: example_env_def)

lemma example_bearer:
  "bearer_token (login_request em pw) = None"
  "bearer_token (delete_request tok i) = Some tok"
  by (simp_all add: bearer_token_def login_request_def delete_request_def startsWith_def)

section \<open>Permission matching\<close>

lemma js_split_first: "\<exists>ws. js_split sep s = takeWhile (\<lambda>c. c \<noteq> sep) s # ws"
  by (induction s) (auto split: list.splits)

lemma resource_of_takeWhile: "resource_of p = takeWhile (\<lambda>c. c \<noteq> CHR '':'') p"
proof -
  obtain ws where "js_split CHR '':'' p = takeWhile (\<lambda>c. c \<noteq> CHR '':'') p # ws"
    using js_split_first by blast
  then show ?thesis by (simp add: resource_of_def)
qed

lemma resource_of_scope:
  assumes "CHR '':'' \<notin> set resource"
  shows "resource_of (resource @ CHR '':'' # action) = resource"
proof -
  have "\<And>x. x \<in> set resource \<Longrightarrow> x \<noteq> CHR '':''"
    using assms by auto
  then have "takeWhile (\<lambda>c. c \<noteq> CHR '':'') (resource @ CHR '':'' # action) = resource"
    by simp
  then show ?thesis by (simp add: resource_of_takeWhile)
qed

text \<open>
  C1. On an authenticated request, \<open>requirePermission\<close> for a required permission
  \<open>resource:action\<close> calls \<open>next()\<close> exactly when the attached permission set contains
  \<open>*\<close>, the required string itself, or \<open>resource:*\<close>, where \<open>resource\<close> is the part
  before the first colon; in every other case it answers 403 \<open>Insufficient permissions\<close>.
\<close>

theorem requirePermission_three_tier:
  assumes "req_staff req = Some st" and "CHR '':'' \<notin> set resource"
  shows "requirePermission (resource @ '':'' @ action) req res =
           (if ''*'' \<in> set (permissions st)
               \<or> resource @ '':'' @ action \<in> set (permissions st)
               \<or> resource @ '':*'' \<in> set (permissions st)
            then Next req
            else Responded (fail 403 ''Insufficient permissions'' res))"
  using assms by (simp add: requirePermission_def resource_of_scope Let_def)

text \<open>
  The set \<open>["staff:read"]\<close> permits \<open>staff:read\<close> and denies \<open>staff:write\<close>,
  \<open>["staff:*"]\<close> permits \<open>staff:read\<close> and \<open>staff:delete\<close>, and \<open>["*"]\<close> permits
  \<open>roles:update\<close>.
\<close>

theorem requirePermission_three_tier_witness:
  "requirePermission ''staff:read'' (request_with_permissions [''staff:read'']) res0
     = Next (request_with_permissions [''staff:read''])
 \<and> requirePermission ''staff:write'' (request_with_permissions [''staff:read'']) res0
     = Responded (fail 403 ''Insufficient permissions'' res0)
 \<and> requirePermission ''staff:read'' (request_with_permissions [''staff:*'']) res0
     = Next (request_with_permissions [''staff:*''])
 \<and> requirePermission ''staff:delete'' (request_with_permissions [''staff:*'']) res0
     = Next (request_with_permissions [''staff:*''])
 \<and> requirePermission ''roles:update'' (request_with_permissions [''*'']) res0
     = Next (request_with_permissions [''*''])"
proof -
  have s: "CHR '':'' \<notin> set ''staff''" and r: "CHR '':'' \<notin> set ''roles''" by simp_all
  have st: "req_staff (request_with_permissions ps) =
      Some \<lparr>reqId = ''a0000000-0000-4000-8000-000000000001'', reqEmail = ''a@x.com'',
            isAdmin = False, permissions = ps\<rparr>" for ps
    by (simp add: request_with_permissions_def)
  show ?thesis
    using requirePermission_three_tier [OF st [of "[''staff:read'']"] s, of "''read''" res0]
      requirePermission_three_tier [OF st [of "[''staff:read'']"] s, of "''write''" res0]
      requirePermission_three_tier [OF st [of "[''staff:*'']"] s, of "''read''" res0]
      requirePermission_three_tier [OF st [of "[''staff:*'']"] s, of "''delete''" res0]
      requirePermission_three_tier [OF st [of "[''*'']"] r, of "''update''" res0]
    by simp
qed

section \<open>The lockout state machine\<close>

text \<open>
  C2. For an existing, active account that is not locked at the time of the request, a
  login with a wrong password leaves the store as follows: if the stored counter was 4 it
  is 5 and the lockout expiry is the store's current time plus 30 minutes; if the counter
  was between 0 and 3 it is one more (between 1 and 4) and the lockout expiry is what it
  was.
\<close>

theorem login_failed_attempt_lockout:
  assumes "constraints_hold db" and "r \<in> set (staff db)"
    and "loginSchema_parse (isEmail e) (req_body req) = Inr \<lparr>li_email = email_col r, li_password = pw\<rparr>"
    and "status_col r = ''active''"
    and "\<not> (case locked_until r of None \<Rightarrow> False | Some t \<Rightarrow> t > jsNow e)"
    and "\<not> verifyPassword e pw (password_hash r)"
    and "StaffController_login e req res db = (res', db')"
  shows "(failed_login_attempts r = 4 \<longrightarrow>
            counter_of db' (id_col r) = Some 5 \<and>
            lockout_of db' (id_col r) = Some (Some (dbNow e + 30 * 60 * 1000)))
       \<and> (0 \<le> failed_login_attempts r \<and> failed_login_attempts r \<le> 3 \<longrightarrow>
            counter_of db' (id_col r) = Some (failed_login_attempts r + 1) \<and>
            1 \<le> failed_login_attempts r + 1 \<and> failed_login_attempts r + 1 \<le> 4 \<and>
            lockout_of db' (id_col r) = Some (locked_until r))"
proof -
  have ids: "distinct (map id_col (staff db))" and emails: "distinct (map email_col (staff db))"
    using assms(1) by (simp_all add: constraints_hold_def)
  have db': "db' = update_staff_where_id (dbNow e) (id_col r) (set_failed_login e) db"
    using login_wrong_password [OF emails assms(2-6)] assms(7) by simp
  have row: "row_of db (id_col r) = Some r"
    using row_of_member [OF ids assms(2)] .
  have c0: "counter_of db (id_col r) = Some (failed_login_attempts r)"
    by (simp add: counter_of_def row)
  have c: "counter_of db' (id_col r) = Some (failed_login_attempts r + 1)"
    by (simp add: db' counter_incr c0)
  have l: "lockout_of db' (id_col r) =
             Some (if failed_login_attempts r \<ge> 4 then Some (dbNow e + 30 * 60 * 1000) else locked_until r)"
    by (simp add: db' lockout_incr row)
  show ?thesis using c l by simp
qed

text \<open>
  \<open>alice\<close> has four failed attempts and no lockout: after one more she has five and is
  locked until \<open>dbNow + 1800000\<close>. \<open>dave\<close> has two and an expired lockout: after one more
  he has three and the same expiry.
\<close>

theorem login_failed_attempt_lockout_witness:
  "counter_of (snd (StaffController_login example_env (login_request ''a@x.com'' ''wrong'')
     res0 example_store)) alice_id = Some 5
 \<and> lockout_of (snd (StaffController_login example_env (login_request ''a@x.com'' ''wrong'')
     res0 example_store)) alice_id = Some (Some 2800005)
 \<and> counter_of (snd (StaffController_login example_env (login_request ''d@x.com'' ''wrong'')
     res0 example_store)) dave_id = Some 3
 \<and> lockout_of (snd (StaffController_login example_env (login_request ''d@x.com'' ''wrong'')
     res0 example_store)) dave_id = Some (Some 500)"
proof -
  let ?A = "StaffController_login example_env (login_request ''a@x.com'' ''wrong'') res0 example_store"
  let ?D = "StaffController_login example_env (login_request ''d@x.com'' ''wrong'') res0 example_store"
  have pa: "loginSchema_parse (isEmail example_env) (req_body (login_request ''a@x.com'' ''wrong''))
      = Inr \<lparr>li_email = email_col alice, li_password = ''wrong''\<rparr>"
    by (simp add: example_parse alice_def account_def)
  have pd: "loginSchema_parse (isEmail example_env) (req_body (login_request ''d@x.com'' ''wrong''))
      = Inr \<lparr>li_email = email_col dave, li_password = ''wrong''\<rparr>"
    by (simp add: example_parse dave_def account_def)
  have sa: "status_col alice = ''active''" and sd: "status_col dave = ''active''"
    by (simp_all add: alice_def dave_def account_def)
  have la: "\<not> (case locked_until alice of None \<Rightarrow> False | Some t \<Rightarrow> t > jsNow example_env)"
    and ld: "\<not> (case locked_until dave of None \<Rightarrow> False | Some t \<Rightarrow> t > jsNow example_env)"
    by (simp_all add: alice_def dave_def account_def example_env_def)
  have va: "\<not> verifyPassword example_env ''wrong'' (password_hash alice)"
    and vd: "\<not> verifyPassword example_env ''wrong'' (password_hash dave)"
    by (simp_all add: alice_def dave_def account_def example_env_def)
  have ra: "?A = (fst ?A, snd ?A)" and rd: "?D = (fst ?D, snd ?D)" by simp_all
  show ?thesis
    using login_failed_attempt_lockout
        [OF example_constraints example_members(1) pa sa la va ra]
      login_failed_attempt_lockout
        [OF example_constraints example_members(3) pd sd ld vd rd]
    by (simp add: alice_def dave_def account_def example_env_def)
qed

text \<open>
  C3. For an account whose lockout expiry is later than the time of the request, a login
  with its e-mail is answered 403 \<open>Account is temporarily locked\<close> and the store is left
  as it was; the answer is the same whatever \<open>verifyPassword\<close> would say, so the
  password is not evaluated. And no login request at all, whatever its body, changes the
  stored row of that account.
\<close>

theorem login_locked_rejected:
  assumes "constraints_hold db" and "r \<in> set (staff db)"
    and "locked_until r = Some t" and "t > jsNow e"
  shows "(loginSchema_parse (isEmail e) (req_body req)
            = Inr \<lparr>li_email = email_col r, li_password = pw\<rparr> \<longrightarrow>
          StaffController_login e req res db =
            (fail 403 ''Account is temporarily locked due to multiple failed login attempts'' res,
             db)
          \<and> (\<forall>v. StaffController_login (e\<lparr>verifyPassword := v\<rparr>) req res db =
                  StaffController_login e req res db))
       \<and> (\<forall>req'. row_of (snd (StaffController_login e req' res db)) (id_col r) = Some r)"
proof -
  have emails: "distinct (map email_col (staff db))" and ids: "distinct (map id_col (staff db))"
    using assms(1) by (simp_all add: constraints_hold_def)
  have *: "StaffController_login e' req res db =
           (fail 403 ''Account is temporarily locked due to multiple failed login attempts'' res, db)"
    if "isEmail e' = isEmail e" and "jsNow e' = jsNow e"
      and "loginSchema_parse (isEmail e) (req_body req)
            = Inr \<lparr>li_email = email_col r, li_password = pw\<rparr>" for e'
    using assms(3,4) that findByEmailWithPassword_member [OF emails assms(2)]
    by (simp add: StaffController_login_def)
  show ?thesis
    using * [of e] * [of "e\<lparr>verifyPassword := v\<rparr>" for v]
      login_keeps_locked_row [OF ids assms(2-4)]
    by simp
qed

text \<open>
  \<open>bob\<close> is locked until 2000000 and the request arrives at 1000000: his correct
  password and a wrong one get the same 403, and the store does not change. A failed
  login of \<open>alice\<close> does not change his row either.
\<close>

theorem login_locked_rejected_witness:
  "StaffController_login example_env (login_request ''b@x.com'' ''Secure1!A'') res0 example_store
     = (fail 403 ''Account is temporarily locked due to multiple failed login attempts'' res0,
        example_store)
 \<and> StaffController_login example_env (login_request ''b@x.com'' ''wrong'') res0 example_store
     = (fail 403 ''Account is temporarily locked due to multiple failed login attempts'' res0,
        example_store)
 \<and> statusCode (fst (StaffController_login example_env (login_request ''b@x.com'' ''Secure1!A'')
      res0 example_store)) = 403
 \<and> verifyPassword example_env ''Secure1!A'' (password_hash bob)
 \<and> row_of (snd (StaffController_login example_env (login_request ''a@x.com'' ''wrong'')
      res0 example_store)) bob_id = Some bob"
proof -
  have p: "loginSchema_parse (isEmail example_env) (req_body (login_request ''b@x.com'' pw))
      = Inr \<lparr>li_email = email_col bob, li_password = pw\<rparr>" if "pw \<noteq> []" for pw
    using that by (simp add: example_parse bob_def account_def)
  have l: "locked_until bob = Some 2000000" and t: "2000000 > jsNow example_env"
    by (simp_all add: bob_def account_def example_env_def)
  have v: "verifyPassword example_env ''Secure1!A'' (password_hash bob)"
    and i: "id_col bob = bob_id"
    by (simp_all add: bob_def account_def example_env_def)
  show ?thesis
    using login_locked_rejected [OF example_constraints example_members(2) l t,
        where req = "login_request ''b@x.com'' ''Secure1!A''" and pw = "''Secure1!A''"
          and res = res0]
      login_locked_rejected [OF example_constraints example_members(2) l t,
        where req = "login_request ''b@x.com'' ''wrong''" and pw = "''wrong''"
          and res = res0]
      p v i
    by simp
qed

text \<open>
  C4. A login with the right password on an active account that is not locked does not
  reach \<open>updateLastLogin\<close>: \<open>getPermissions\<close>, which the handler calls first, throws on
  its cast of the \<open>JSONB\<close> column \<open>permissions\<close> to \<open>text[]\<close>, and the handler's \<open>catch\<close>
  answers 400 with the store as it was. The counter and the lockout expiry of the account
  are what they were, and no login request at all is answered with a token.
  \<open>updateLastLogin\<close> itself, the statement the handler was to run next, would have set
  the counter to 0 and the lockout expiry to \<open>NULL\<close>.
\<close>

theorem login_correct_password_no_reset:
  assumes "constraints_hold db" and "r \<in> set (staff db)"
    and "loginSchema_parse (isEmail e) (req_body req) = Inr \<lparr>li_email = email_col r, li_password = pw\<rparr>"
    and "status_col r = ''active''"
    and "\<not> (case locked_until r of None \<Rightarrow> False | Some t \<Rightarrow> t > jsNow e)"
    and "verifyPassword e pw (password_hash r)"
  shows "StaffController_login e req res db
           = (fail 400 ''cannot cast type jsonb to text[]'' res, db)
       \<and> counter_of (snd (StaffController_login e req res db)) (id_col r)
           = Some (failed_login_attempts r)
       \<and> lockout_of (snd (StaffController_login e req res db)) (id_col r)
           = Some (locked_until r)
       \<and> (\<forall>req' tok ls. fst (StaffController_login e req' res db)
             \<noteq> res_json (LoginBody tok ls) res)
       \<and> (\<exists>db1. StaffModel_updateLastLogin e (uuid_out (id_col r)) db = Inr db1
             \<and> counter_of db1 (id_col r) = Some 0 \<and> lockout_of db1 (id_col r) = Some None)"
proof -
  have ids: "distinct (map id_col (staff db))" and emails: "distinct (map email_col (staff db))"
    using assms(1) by (simp_all add: constraints_hold_def)
  have row: "row_of db (id_col r) = Some r"
    using row_of_member [OF ids assms(2)] .
  have c0: "counter_of db (id_col r) = Some (failed_login_attempts r)"
    by (simp add: counter_of_def row)
  have 1: "StaffController_login e req res db
           = (fail 400 ''cannot cast type jsonb to text[]'' res, db)"
    using login_correct_password [OF emails assms(2-6)] .
  have 2: "fst (StaffController_login e req' res db) \<noteq> res_json (LoginBody tok ls) res"
    for req' tok ls
  proof -
    obtain res' db' where l: "StaffController_login e req' res db = (res', db')"
      by (cases "StaffController_login e req' res db")
    have "sent res' \<noteq> sent (res_json (LoginBody tok ls) res)"
      using login_cases [OF l] by auto
    then show ?thesis using l by auto
  qed
  have 3: "counter_of (update_staff_where_id (dbNow e) (id_col r) (set_last_login e) db)
             (id_col r) = Some 0"
    "lockout_of (update_staff_where_id (dbNow e) (id_col r) (set_last_login e) db)
             (id_col r) = Some None"
    by (simp_all add: counter_reset lockout_reset c0 row)
  show ?thesis
    using 1 2 3 by (simp add: c0 lockout_of_def row updateLastLogin_out)
qed

text \<open>
  \<open>dave\<close> has two failed attempts and an expired lockout. He logs in with his password:
  the answer is 400, and his counter is still 2 and his lockout expiry still 500.
\<close>

theorem login_correct_password_no_reset_witness:
  "verifyPassword example_env ''Secure1!A'' (password_hash dave)
 \<and> StaffController_login example_env (login_request ''d@x.com'' ''Secure1!A'') res0 example_store
     = (fail 400 ''cannot cast type jsonb to text[]'' res0, example_store)
 \<and> counter_of (snd (StaffController_login example_env
       (login_request ''d@x.com'' ''Secure1!A'') res0 example_store)) dave_id = Some 2
 \<and> lockout_of (snd (StaffController_login example_env
       (login_request ''d@x.com'' ''Secure1!A'') res0 example_store)) dave_id = Some (Some 500)"
proof -
  let ?req = "login_request ''d@x.com'' ''Secure1!A''"
  have p: "loginSchema_parse (isEmail example_env) (req_body ?req)
      = Inr \<lparr>li_email = email_col dave, li_password = ''Secure1!A''\<rparr>"
    by (simp add: example_parse dave_def account_def)
  have s: "status_col dave = ''active''"
    and l: "\<not> (case locked_until dave of None \<Rightarrow> False | Some t \<Rightarrow> t > jsNow example_env)"
    and v: "verifyPassword example_env ''Secure1!A'' (password_hash dave)"
    and d: "id_col dave = dave_id" "failed_login_attempts dave = 2"
      "locked_until dave = Some 500"
    by (simp_all add: dave_def account_def example_env_def)
  note T = login_correct_password_no_reset
      [OF example_constraints example_members(3) p s l v, of res0, unfolded d]
  show ?thesis
  proof (intro conjI)
    show "verifyPassword example_env ''Secure1!A'' (password_hash dave)" by (rule v)
    show "StaffController_login example_env ?req res0 example_store
        = (fail 400 ''cannot cast type jsonb to text[]'' res0, example_store)"
      using T by (rule conjunct1)
    show "counter_of (snd (StaffController_login example_env ?req res0 example_store)) dave_id
        = Some 2"
      using T by blast
    show "lockout_of (snd (StaffController_login example_env ?req res0 example_store)) dave_id
        = Some (Some 500)"
      using T by blast
  qed
qed

section \<open>Lookup by e-mail\<close>

text \<open>
  C5, as amended. With the e-mail column unique, a lookup by e-mail (\<open>findByEmail\<close>, and
  \<open>findByEmailWithPassword\<close> on the login path) returns a stored account exactly when
  the query string equals the stored e-mail character for character.
\<close>

theorem email_lookup_exact:
  assumes "constraints_hold db" and "r \<in> set (staff db)"
  shows "(StaffModel_findByEmail db q = Some (select_Staff r)) = (q = email_col r)
       \<and> (StaffModel_findByEmailWithPassword db q = Some (select_StaffWithPassword r))
           = (q = email_col r)"
proof -
  have emails: "distinct (map email_col (staff db))"
    using assms(1) by (simp add: constraints_hold_def)
  have "StaffModel_findByEmail db q = Some (select_Staff r) \<Longrightarrow> q = email_col r"
    using findByEmail_Some by fastforce
  moreover have "StaffModel_findByEmailWithPassword db q = Some (select_StaffWithPassword r)
      \<Longrightarrow> q = email_col r"
    using findByEmailWithPassword_email by fastforce
  ultimately show ?thesis
    using findByEmail_member [OF emails assms(2)]
      findByEmailWithPassword_member [OF emails assms(2)]
    by blast
qed

theorem email_lookup_exact_witness:
  "StaffModel_findByEmail example_store ''a@x.com'' = Some (select_Staff alice)
 \<and> StaffModel_findByEmailWithPassword example_store ''a@x.com''
     = Some (select_StaffWithPassword alice)
 \<and> StaffModel_findByEmail example_store ''A@x.com'' \<noteq> Some (select_Staff alice)
 \<and> StaffModel_findByEmailWithPassword example_store ''A@x.com''
     \<noteq> Some (select_StaffWithPassword alice)"
  using email_lookup_exact [OF example_constraints example_members(1), of "''a@x.com''"]
    email_lookup_exact [OF example_constraints example_members(1), of "''A@x.com''"]
  by (simp add: alice_def account_def)

text \<open>
  C5 as written, that a query differing from the stored e-mail only in letter case finds
  the account, fails: \<open>alice\<close> is stored under \<open>a@x.com\<close>, and neither lookup finds
  anything for \<open>A@x.com\<close>.
\<close>

theorem email_lookup_case_counterexample:
  "same_up_to_case ''A@x.com'' ''a@x.com''
 \<and> alice \<in> set (staff example_store)
 \<and> email_col alice = ''a@x.com''
 \<and> StaffModel_findByEmail example_store ''A@x.com'' = None
 \<and> StaffModel_findByEmailWithPassword example_store ''A@x.com'' = None"
proof -
  have "lower_char CHR ''A'' = CHR ''a''" by code_simp
  moreover have "lower_char c = c"
    if "c \<in> set ''a@x.com''" for c
    using that by (auto simp: lower_char_def)
  ultimately have "same_up_to_case ''A@x.com'' ''a@x.com''"
    by (simp add: same_up_to_case_def)
  then show ?thesis
    by (simp add: StaffModel_findByEmail_def StaffModel_findByEmailWithPassword_def fixtures)
qed

section \<open>The authentication interceptor\<close>

lemma bearer_None:
  "bearer_token req = None \<Longrightarrow>
     authenticateStaff e db req res = Responded (fail 401 ''No authentication token provided'' res)"
  by (auto simp: bearer_token_def authenticateStaff_def startsWith_def
      split: option.splits if_splits)

lemma bearer_Some:
  assumes "bearer_token req = Some tok"
  shows "authenticateStaff e db req res =
     (case verifyToken e tok of
        None \<Rightarrow> Responded (fail 401 ''Invalid or expired authentication token'' res)
      | Some payload \<Rightarrow>
          (case StaffModel_findById db (staffId payload) of
             Inl err \<Rightarrow> Responded (fail 401 ''Invalid or expired authentication token'' res)
           | Inr None \<Rightarrow> Responded (fail 401 ''Staff member not found'' res)
           | Inr (Some s) \<Rightarrow>
               if status s \<noteq> ''active''
               then Responded (fail 403 ''Staff account is not active'' res)
               else Next (req\<lparr>req_staff := Some
                      \<lparr>reqId = staffId payload, reqEmail = payloadEmail payload,
                       isAdmin = payloadIsAdmin payload,
                       permissions = payloadPermissions payload\<rparr>\<rparr>)))"
proof -
  obtain h where h: "headers_authorization req = Some h" "startsWith h ''Bearer ''" "tok = drop 7 h"
    using assms by (auto simp: bearer_token_def split: option.splits if_splits)
  then have "h \<noteq> []" by (auto simp: startsWith_def)
  then show ?thesis using h by (simp add: authenticateStaff_def Let_def)
qed

text \<open>
  C6. \<open>authenticateStaff\<close> answers 401 exactly when the request carries no bearer token,
  or \<open>verifyToken\<close> rejects the token, or the lookup of the token's staff id yields no
  account; it answers 403 exactly when the token verifies and the account with its staff
  id has a status other than \<open>active\<close>; and when the token verifies and that account is
  active it calls \<open>next()\<close> with the token's id, e-mail, admin flag and permissions
  attached as \<open>req.staff\<close>.
\<close>

theorem authenticateStaff_outcomes:
  "(responded_status (authenticateStaff e db req res) = Some 401) =
     (bearer_token req = None
      \<or> (\<exists>tok. bearer_token req = Some tok \<and> verifyToken e tok = None)
      \<or> (\<exists>tok p. bearer_token req = Some tok \<and> verifyToken e tok = Some p
            \<and> (\<forall>s. StaffModel_findById db (staffId p) \<noteq> Inr (Some s))))
 \<and> (responded_status (authenticateStaff e db req res) = Some 403) =
     (\<exists>tok p s. bearer_token req = Some tok \<and> verifyToken e tok = Some p
        \<and> StaffModel_findById db (staffId p) = Inr (Some s) \<and> status s \<noteq> ''active'')
 \<and> (\<forall>tok p s. bearer_token req = Some tok \<and> verifyToken e tok = Some p
        \<and> StaffModel_findById db (staffId p) = Inr (Some s) \<and> status s = ''active''
      \<longrightarrow> authenticateStaff e db req res =
            Next (req\<lparr>req_staff := Some
              \<lparr>reqId = staffId p, reqEmail = payloadEmail p, isAdmin = payloadIsAdmin p,
               permissions = payloadPermissions p\<rparr>\<rparr>))"
proof (cases "bearer_token req")
  case None
  then show ?thesis by (simp add: bearer_None responded_status_def)
next
  case (Some tok)
  show ?thesis
  proof (cases "verifyToken e tok")
    case None
    then show ?thesis using Some by (simp add: bearer_Some [OF Some] responded_status_def)
  next
    case p: (Some p)
    show ?thesis
    proof (cases "StaffModel_findById db (staffId p)")
      case (Inl err)
      then show ?thesis using Some p by (simp add: bearer_Some [OF Some] responded_status_def)
    next
      case (Inr found)
      show ?thesis
      proof (cases found)
        case None
        then show ?thesis using Some p Inr
          by (simp add: bearer_Some [OF Some] responded_status_def)
      next
        case s: (Some s)
        then show ?thesis using Some p Inr
          by (simp add: bearer_Some [OF Some] responded_status_def)
      qed
    qed
  qed
qed

text \<open>
  A request without the header, one with a token that does not verify, one whose token
  names no account and one whose token carries an id that is no \<open>UUID\<close> get 401; the
  token of the suspended \<open>erin\<close> gets 403; the token of \<open>alice\<close> passes with her
  identity attached.
\<close>

theorem authenticateStaff_outcomes_witness:
  "responded_status (authenticateStaff example_env example_store
      (login_request ''a@x.com'' ''x'') res0) = Some 401
 \<and> responded_status (authenticateStaff example_env example_store
      (delete_request ''forged'' ''d0000000-0000-4000-8000-000000000003'') res0) = Some 401
 \<and> responded_status (authenticateStaff example_env example_store
      (delete_request ''jwt:f0000000-0000-4000-8000-000000000007''
         ''d0000000-0000-4000-8000-000000000003'') res0) = Some 401
 \<and> responded_status (authenticateStaff example_env example_store
      (delete_request ''jwt:u7'' ''d0000000-0000-4000-8000-000000000003'') res0) = Some 401
 \<and> responded_status (authenticateStaff example_env example_store
      (delete_request ''jwt:e0000000-0000-4000-8000-000000000004''
         ''d0000000-0000-4000-8000-000000000003'') res0) = Some 403
 \<and> authenticateStaff example_env example_store
      (delete_request ''jwt:a0000000-0000-4000-8000-000000000001''
         ''d0000000-0000-4000-8000-000000000003'') res0
      = Next (request_with_permissions [''staff:read''])"
proof -
  let ?d = "''d0000000-0000-4000-8000-000000000003''"
  note T = authenticateStaff_outcomes [where e = example_env and db = example_store and res = res0]
  note b = example_bearer
  note v = example_verifyToken
  have f0: "StaffModel_findById example_store ''u7'' = Inl InvalidUuid"
    by (simp add: StaffModel_findById_def not_uuid)
  have s4: "status (select_Staff erin) \<noteq> ''active''"
    and s1: "status (select_Staff alice) = ''active''"
    by (simp_all add: fixtures)
  have 1: "responded_status (authenticateStaff example_env example_store
      (login_request ''a@x.com'' ''x'') res0) = Some 401"
    using T [where req = "login_request ''a@x.com'' ''x''", THEN conjunct1] b by simp
  have 2: "responded_status (authenticateStaff example_env example_store
      (delete_request ''forged'' ?d) res0) = Some 401"
    using T [where req = "delete_request ''forged'' ?d", THEN conjunct1] b v(1) by simp
  have 3: "responded_status (authenticateStaff example_env example_store
      (delete_request ''jwt:f0000000-0000-4000-8000-000000000007'' ?d) res0) = Some 401"
    using T [where req = "delete_request ''jwt:f0000000-0000-4000-8000-000000000007'' ?d",
          THEN conjunct1]
      b v(2) [of "''f0000000-0000-4000-8000-000000000007''"] example_findById(4) by simp
  have 4: "responded_status (authenticateStaff example_env example_store
      (delete_request ''jwt:u7'' ?d) res0) = Some 401"
    using T [where req = "delete_request ''jwt:u7'' ?d", THEN conjunct1]
      b v(2) [of "''u7''"] f0 by simp
  have 5: "responded_status (authenticateStaff example_env example_store
      (delete_request ''jwt:e0000000-0000-4000-8000-000000000004'' ?d) res0) = Some 403"
    using T [where req = "delete_request ''jwt:e0000000-0000-4000-8000-000000000004'' ?d",
          THEN conjunct2, THEN conjunct1]
      b v(2) [of "''e0000000-0000-4000-8000-000000000004''"] example_findById(3) s4 by simp
  have 6: "authenticateStaff example_env example_store
      (delete_request ''jwt:a0000000-0000-4000-8000-000000000001'' ?d) res0
      = Next (request_with_permissions [''staff:read''])"
    using T [where req = "delete_request ''jwt:a0000000-0000-4000-8000-000000000001'' ?d",
          THEN conjunct2, THEN conjunct2,
          rule_format, of "''jwt:a0000000-0000-4000-8000-000000000001''" _ "select_Staff alice"]
      b v(2) [of "''a0000000-0000-4000-8000-000000000001''"] example_findById(1) s1
    by (simp add: request_with_permissions_def)
  show ?thesis using 1 2 3 4 5 6 by simp
qed

section \<open>What a login answer reveals\<close>

text \<open>
  C7. Take two login requests that pass the schema, one whose e-mail is stored for no
  account, one with the e-mail of an active account that is not locked and a password
  that does not verify. The handler answers both with the same response, 401
  \<open>Invalid email or password\<close>. Every answer of the handler is a 400 for a rejected
  body, that 401, the 403 of a locked account, the 403 of an account that is not active,
  or the token.
\<close>

theorem login_no_email_oracle:
  assumes "constraints_hold db"
    and "loginSchema_parse (isEmail e) (req_body req1) = Inr v1"
    and "li_email v1 \<notin> set (map email_col (staff db))"
    and "r \<in> set (staff db)"
    and "loginSchema_parse (isEmail e) (req_body req2) = Inr \<lparr>li_email = email_col r, li_password = pw\<rparr>"
    and "status_col r = ''active''"
    and "\<not> (case locked_until r of None \<Rightarrow> False | Some t \<Rightarrow> t > jsNow e)"
    and "\<not> verifyPassword e pw (password_hash r)"
  shows "fst (StaffController_login e req1 res db) = fst (StaffController_login e req2 res db)
       \<and> fst (StaffController_login e req1 res db) = fail 401 ''Invalid email or password'' res
       \<and> (\<forall>req res' db'. StaffController_login e req res db = (res', db') \<longrightarrow>
             (\<exists>m. res' = fail 400 m res)
           \<or> res' = fail 401 ''Invalid email or password'' res
           \<or> res' = fail 403
                ''Account is temporarily locked due to multiple failed login attempts'' res
           \<or> res' = fail 403 ''Account is not active'' res
           \<or> (\<exists>tok ls. res' = res_json (LoginBody tok ls) res))"
proof -
  have emails: "distinct (map email_col (staff db))"
    using assms(1) by (simp add: constraints_hold_def)
  have 1: "fst (StaffController_login e req1 res db) = fail 401 ''Invalid email or password'' res"
    using login_unknown_email [OF assms(2,3)] by simp
  have 2: "fst (StaffController_login e req2 res db) = fail 401 ''Invalid email or password'' res"
    using login_wrong_password [OF emails assms(4-8)] by simp
  have 3: "(\<exists>m. res' = fail 400 m res)
           \<or> res' = fail 401 ''Invalid email or password'' res
           \<or> res' = fail 403
                ''Account is temporarily locked due to multiple failed login attempts'' res
           \<or> res' = fail 403 ''Account is not active'' res
           \<or> (\<exists>tok ls. res' = res_json (LoginBody tok ls) res)"
    if "StaffController_login e req res db = (res', db')" for req res' db'
    using login_cases [OF that] by blast
  show ?thesis using 1 2 3 by simp
qed

text \<open>
  Nobody is stored under \<open>nobody@x.com\<close>; \<open>alice\<close> is stored under \<open>a@x.com\<close> with
  another password. The two answers are the same; the locked \<open>bob\<close> and the suspended
  \<open>erin\<close> get the two 403 answers.
\<close>

theorem login_no_email_oracle_witness:
  "fst (StaffController_login example_env (login_request ''nobody@x.com'' ''guess'') res0
          example_store)
     = fst (StaffController_login example_env (login_request ''a@x.com'' ''guess'') res0
          example_store)
 \<and> fst (StaffController_login example_env (login_request ''nobody@x.com'' ''guess'') res0
          example_store)
     = fail 401 ''Invalid email or password'' res0
 \<and> fst (StaffController_login example_env (login_request ''b@x.com'' ''guess'') res0
          example_store)
     = fail 403 ''Account is temporarily locked due to multiple failed login attempts'' res0
 \<and> fst (StaffController_login example_env (login_request ''e@x.com'' ''guess'') res0
          example_store)
     = fail 403 ''Account is not active'' res0"
proof -
  have p1: "loginSchema_parse (isEmail example_env)
      (req_body (login_request ''nobody@x.com'' ''guess''))
      = Inr \<lparr>li_email = ''nobody@x.com'', li_password = ''guess''\<rparr>"
    by (simp add: example_parse)
  have u: "li_email \<lparr>li_email = ''nobody@x.com'', li_password = ''guess''\<rparr>
      \<notin> set (map email_col (staff example_store))"
    by (simp add: fixtures)
  have p2: "loginSchema_parse (isEmail example_env) (req_body (login_request ''a@x.com'' ''guess''))
      = Inr \<lparr>li_email = email_col alice, li_password = ''guess''\<rparr>"
    by (simp add: example_parse alice_def account_def)
  have s: "status_col alice = ''active''"
    and l: "\<not> (case locked_until alice of None \<Rightarrow> False | Some t \<Rightarrow> t > jsNow example_env)"
    and v: "\<not> verifyPassword example_env ''guess'' (password_hash alice)"
    by (simp_all add: alice_def account_def example_env_def)
  have pb: "loginSchema_parse (isEmail example_env) (req_body (login_request ''b@x.com'' ''guess''))
      = Inr \<lparr>li_email = ''b@x.com'', li_password = ''guess''\<rparr>"
    and pe: "loginSchema_parse (isEmail example_env) (req_body (login_request ''e@x.com'' ''guess''))
      = Inr \<lparr>li_email = ''e@x.com'', li_password = ''guess''\<rparr>"
    by (simp_all add: example_parse)
  have fb: "StaffModel_findByEmailWithPassword example_store ''b@x.com''
      = Some (select_StaffWithPassword bob)"
    and fe: "StaffModel_findByEmailWithPassword example_store ''e@x.com''
      = Some (select_StaffWithPassword erin)"
    by (simp_all add: StaffModel_findByEmailWithPassword_def fixtures)
  have lb: "locked_until bob = Some 2000000" and le: "locked_until erin = None"
    and se: "status_col erin = ''suspended''" and now: "jsNow example_env = 1000000"
    by (simp_all add: bob_def erin_def account_def example_env_def)
  have b: "fst (StaffController_login example_env (login_request ''b@x.com'' ''guess'') res0
          example_store)
     = fail 403 ''Account is temporarily locked due to multiple failed login attempts'' res0"
    by (simp add: StaffController_login_def pb fb lb now)
  have e: "fst (StaffController_login example_env (login_request ''e@x.com'' ''guess'') res0
          example_store)
     = fail 403 ''Account is not active'' res0"
    by (simp add: StaffController_login_def pe fe le se)
  note T = login_no_email_oracle [OF example_constraints p1 u example_members(1) p2 s l v, of res0]
  show ?thesis
  proof (intro conjI)
    show "fst (StaffController_login example_env (login_request ''nobody@x.com'' ''guess'') res0
          example_store)
     = fst (StaffController_login example_env (login_request ''a@x.com'' ''guess'') res0
          example_store)"
      using T by (rule conjunct1)
    show "fst (StaffController_login example_env (login_request ''nobody@x.com'' ''guess'') res0
          example_store)
     = fail 401 ''Invalid email or password'' res0"
      using T by blast
  qed (rule b, rule e)
qed

section \<open>Role assignments\<close>

lemma uuid_param_Some: "uuid_in x = Some u \<Longrightarrow> uuid_param (Some x) = Inr (Some u)"
  by (simp add: uuid_param_def)

lemma uuid_param_parses:
  assumes "case b of None \<Rightarrow> True | Some x \<Rightarrow> uuid_in x \<noteq> None"
  shows "\<exists>bu. uuid_param b = Inr bu"
  using assms by (auto simp: uuid_param_def split: option.splits)

lemma uuid_param_stored:
  assumes "case b of None \<Rightarrow> True
           | Some x \<Rightarrow> (case uuid_in x of None \<Rightarrow> False | Some xu \<Rightarrow> xu \<in> ids)"
  shows "\<exists>bu. uuid_param b = Inr bu \<and> (case bu of None \<Rightarrow> True | Some xu \<Rightarrow> xu \<in> ids)"
  using assms by (auto simp: uuid_param_def split: option.splits)

text \<open>
  C9. With the unique constraints in force, for the id of a stored staff member and the
  id of a stored role, in any spelling, and an assigning actor that is absent or stored,
  \<open>assignRole\<close> completes, a second \<open>assignRole\<close> for the same pair (by an actor whose
  id, if given, is a \<open>UUID\<close>) completes too and leaves the store as the first call left
  it, and the store then holds exactly one assignment of that role to that staff member.
  \<open>removeRole\<close> for a pair of ids that has no assignment completes and returns the
  store unchanged.
\<close>

theorem assignRole_idempotent:
  assumes "constraints_hold db"
    and "uuid_in s = Some su" and "su \<in> staff_ids db"
    and "uuid_in r = Some ru" and "ru \<in> role_ids db"
    and "case b of None \<Rightarrow> True
         | Some x \<Rightarrow> (case uuid_in x of None \<Rightarrow> False | Some xu \<Rightarrow> xu \<in> staff_ids db)"
    and "case b' of None \<Rightarrow> True | Some x \<Rightarrow> uuid_in x \<noteq> None"
  shows "(\<exists>db1. StaffModel_assignRole e s r b db = Inr db1
            \<and> StaffModel_assignRole e' s r b' db1 = Inr db1
            \<and> length (filter (\<lambda>a. a_staff_id a = su \<and> a_role_id a = ru)
                 (staff_role_assignments db1)) = 1)
       \<and> (uuid_in s' = Some su' \<and> uuid_in r' = Some ru'
            \<and> \<not> list_ex (\<lambda>a. a_staff_id a = su' \<and> a_role_id a = ru')
                  (staff_role_assignments db)
            \<longrightarrow> StaffModel_removeRole s' r' db = Inr db)"
proof -
  let ?P = "\<lambda>a. a_staff_id a = su \<and> a_role_id a = ru"
  obtain bu where bu: "uuid_param b = Inr bu"
      "case bu of None \<Rightarrow> True | Some xu \<Rightarrow> xu \<in> staff_ids db"
    using uuid_param_stored [OF assms(6)] by blast
  obtain bu' where bu': "uuid_param b' = Inr bu'"
    using uuid_param_parses [OF assms(7)] by blast
  have d: "distinct (map (\<lambda>a. (a_staff_id a, a_role_id a)) (staff_role_assignments db))"
    using assms(1) by (simp add: constraints_hold_def)
  have le: "length (filter (\<lambda>a. (a_staff_id a, a_role_id a) = (su, ru)) (staff_role_assignments db)) \<le> 1"
    using filter_key_length [OF d] .
  have first: "\<exists>db1. StaffModel_assignRole e s r b db = Inr db1
            \<and> StaffModel_assignRole e' s r b' db1 = Inr db1
            \<and> length (filter ?P (staff_role_assignments db1)) = 1"
  proof (cases "list_ex ?P (staff_role_assignments db)")
    case True
    then have "filter ?P (staff_role_assignments db) \<noteq> []" by (rule list_ex_filter)
    then have "length (filter ?P (staff_role_assignments db)) = 1"
      using le by (cases "filter ?P (staff_role_assignments db)") auto
    then show ?thesis using True assms(2,4) bu(1) bu'
      by (simp add: StaffModel_assignRole_def)
  next
    case False
    then have "filter ?P (staff_role_assignments db) = []"
      by (auto simp: filter_empty_conv list_ex_iff)
    then show ?thesis using False assms(2-5) bu bu'
      by (auto simp: StaffModel_assignRole_def staff_ids_def role_ids_def split: option.splits)
  qed
  have second: "StaffModel_removeRole s' r' db = Inr db"
    if "uuid_in s' = Some su'" and "uuid_in r' = Some ru'"
      and "\<not> list_ex (\<lambda>a. a_staff_id a = su' \<and> a_role_id a = ru') (staff_role_assignments db)"
  proof -
    have "filter (\<lambda>a. \<not> (a_staff_id a = su' \<and> a_role_id a = ru')) (staff_role_assignments db)
            = staff_role_assignments db"
      using that(3) by (auto simp: list_ex_iff filter_id_conv)
    then show ?thesis using that(1,2) by (simp add: StaffModel_removeRole_def)
  qed
  show ?thesis using first second by blast
qed

text \<open>
  \<open>bob\<close> assigns the manager role to \<open>alice\<close> twice: both calls complete and one
  assignment is stored. Removing it from the example store, where it is not assigned,
  returns the example store.
\<close>

theorem assignRole_idempotent_witness:
  "(\<exists>db1. StaffModel_assignRole example_env ''a0000000-0000-4000-8000-000000000001''
        ''c0000000-0000-4000-8000-00000000000a''
        (Some ''b0000000-0000-4000-8000-000000000002'') example_store = Inr db1
      \<and> StaffModel_assignRole example_env ''a0000000-0000-4000-8000-000000000001''
        ''c0000000-0000-4000-8000-00000000000a''
        (Some ''b0000000-0000-4000-8000-000000000002'') db1 = Inr db1
      \<and> length (filter (\<lambda>a. a_staff_id a = alice_id \<and> a_role_id a = manager_role_id)
           (staff_role_assignments db1)) = 1)
 \<and> StaffModel_removeRole ''a0000000-0000-4000-8000-000000000001''
      ''c0000000-0000-4000-8000-00000000000a'' example_store = Inr example_store"
proof -
  let ?b = "Some ''b0000000-0000-4000-8000-000000000002''"
  have s: "alice_id \<in> staff_ids example_store"
    and r: "manager_role_id \<in> role_ids example_store"
    by (simp_all add: staff_ids_def role_ids_def fixtures)
  have b: "case ?b of None \<Rightarrow> True
         | Some x \<Rightarrow> (case uuid_in x of None \<Rightarrow> False
                       | Some xu \<Rightarrow> xu \<in> staff_ids example_store)"
    by (simp add: bob_text staff_ids_def fixtures)
  have b': "case ?b of None \<Rightarrow> True | Some x \<Rightarrow> uuid_in x \<noteq> None"
    by (simp add: bob_text)
  have n: "\<not> list_ex (\<lambda>a. a_staff_id a = alice_id \<and> a_role_id a = manager_role_id)
      (staff_role_assignments example_store)"
    by (simp add: example_store_def)
  show ?thesis
    using assignRole_idempotent [OF example_constraints alice_text(1) s manager_role_text(1) r
        b b', of example_env example_env "''a0000000-0000-4000-8000-000000000001''" alice_id
        "''c0000000-0000-4000-8000-00000000000a''" manager_role_id]
      n alice_text(1) manager_role_text(1)
    by simp
qed

section \<open>The activity log\<close>

lemma create_sends_once:
  "\<exists>b. sent (fst (StaffController_create e req res db)) = sent res @ [b]"
  by (auto simp: StaffController_create_def split: sum.splits option.splits prod.splits)

lemma update_sends_once:
  "\<exists>b. sent (fst (StaffController_update e req res db)) = sent res @ [b]"
  by (auto simp: StaffController_update_def split: sum.splits option.splits prod.splits)

lemma delete_sends_once:
  "\<exists>b. sent (fst (StaffController_delete req res db)) = sent res @ [b]"
  by (auto simp: StaffController_delete_def split: sum.splits option.splits)

lemma changePassword_sends_once:
  "\<exists>b. sent (fst (StaffController_changePassword e req res db)) = sent res @ [b]"
  by (auto simp: StaffController_changePassword_def Let_def
      split: sum.splits option.splits prod.splits)

lemma assignRole_sends_once:
  "\<exists>b. sent (fst (StaffController_assignRole e req res db)) = sent res @ [b]"
  by (auto simp: StaffController_assignRole_def split: sum.splits option.splits)

lemma removeRole_sends_once:
  "\<exists>b. sent (fst (StaffController_removeRole req res db)) = sent res @ [b]"
  by (auto simp: StaffController_removeRole_def split: sum.splits option.splits)

lemma handler_sends_once:
  "\<exists>b. sent (fst (handler_of e ep req res db)) = sent res @ [b]"
  by (cases ep)
     (simp_all add: login_sends_once changePassword_sends_once create_sends_once
        update_sends_once delete_sends_once assignRole_sends_once removeRole_sends_once)

lemma errors_case_Inr:
  "((case errs of [] \<Rightarrow> ok | err # x \<Rightarrow> Inl err) = Inr y) = (errs = [] \<and> ok = Inr y)"
  by (cases errs) auto

lemma text_errors_Nil:
  "(text_errors v = []) = (case v of None \<Rightarrow> True | Some s \<Rightarrow> nul \<notin> set s)"
  by (simp add: text_errors_def split: option.splits)

lemma varchar_errors_Nil:
  "(varchar_errors n v = []) = (case v of None \<Rightarrow> True | Some s \<Rightarrow> fits n s)"
  by (simp add: varchar_errors_def split: option.splits)

lemma jsonb_errors_Nil:
  "(jsonb_errors d = []) =
     (nul \<notin> set (d_method d) \<and> nul \<notin> set (d_path d)
      \<and> \<not> list_ex (\<lambda>(k, v). nul \<in> set k \<or> nul \<in> set v) (d_query d))"
  by (simp add: jsonb_errors_def)

lemma inet_errors_Nil:
  "(inet_errors e v = []) = (case v of None \<Rightarrow> True | Some a \<Rightarrow> isInet e a)"
  by (simp add: inet_errors_def split: option.splits)

lemma log_entry_simps [simp]:
  "v_staffId (log_entry a rt req res body) = or_null (map_option reqId (req_staff req))"
  "v_action (log_entry a rt req res body) = a"
  "v_resourceType (log_entry a rt req res body) = rt"
  "v_resourceId (log_entry a rt req res body) = or_null (params_id req)"
  "v_details (log_entry a rt req res body) =
     \<lparr>d_method = req_method req, d_path = req_path req, d_query = req_query req\<rparr>"
  "v_ipAddress (log_entry a rt req res body) =
     (case or_null (req_ip req) of Some a \<Rightarrow> Some a | None \<Rightarrow> socket_remoteAddress req)"
  "v_userAgent (log_entry a rt req res body) = headers_user_agent req"
  "v_status (log_entry a rt req res body) =
     (if statusCode res < 400 then ''success'' else ''error'')"
  "v_errorMessage (log_entry a rt req res body) = or_null (error_of body)"
  by (simp_all add: log_entry_def Let_def)

text \<open>
  The arguments the routes give to \<open>logActivity\<close>, and the two outcomes, have no NUL
  and fit their columns.
\<close>

lemma action_fits:
  "nul \<notin> set (action_of ep)" "fits 100 (action_of ep)" "varchar 100 (action_of ep) = action_of ep"
  "case resourceType_of ep of None \<Rightarrow> True | Some t \<Rightarrow> nul \<notin> set t"
  "case resourceType_of ep of None \<Rightarrow> True | Some t \<Rightarrow> fits 100 t"
  by (cases ep; simp add: nul_def fits_def varchar_def)+

lemma status_fits:
  "nul \<notin> set (if n < (400::nat) then ''success'' else ''error'')"
  "fits 50 (if n < (400::nat) then ''success'' else ''error'')"
  "varchar 50 (if n < (400::nat) then ''success'' else ''error'')
     = (if n < 400 then ''success'' else ''error'')"
  by (simp_all add: nul_def fits_def varchar_def)

lemma insert_iff:
  "(insert_activity_log e (log_entry (action_of ep) (resourceType_of ep) req res body) db
      = Inr db_after) =
   (store_accepts e req body db
    \<and> (\<exists>staff_id. uuid_param (or_null (map_option reqId (req_staff req))) = Inr staff_id
          \<and> db_after = db\<lparr>staff_activity_logs := staff_activity_logs db @
               [log_row_of e (log_entry (action_of ep) (resourceType_of ep) req res body)
                  staff_id]\<rparr>))"
proof (cases "uuid_param (or_null (map_option reqId (req_staff req)))")
  case (Inl err)
  then show ?thesis by (simp add: insert_activity_log_def)
next
  case (Inr staff_id)
  have sid: "(case or_null (map_option reqId (req_staff req)) of
         None \<Rightarrow> True
       | Some s \<Rightarrow> (case uuid_in s of None \<Rightarrow> False | Some u \<Rightarrow> u \<in> staff_ids db))
      = (case staff_id of None \<Rightarrow> True | Some s \<Rightarrow> s \<in> staff_ids db)"
    using Inr by (auto simp: uuid_param_def split: option.splits)
  show ?thesis
    unfolding insert_activity_log_def store_accepts_def sid
    using Inr action_fits [of ep] status_fits [of "statusCode res"]
    by (auto simp: errors_case_Inr text_errors_Nil varchar_errors_Nil jsonb_errors_Nil
          inet_errors_Nil
        split: option.splits)
qed

lemma log_callback_result:
  "log_callback e (action_of ep) (resourceType_of ep) req res body db =
     (if store_accepts e req body db
      then db\<lparr>staff_activity_logs := staff_activity_logs db @
             [log_row_of e (log_entry (action_of ep) (resourceType_of ep) req res body)
                (case or_null (map_option reqId (req_staff req)) of
                   None \<Rightarrow> None
                 | Some s \<Rightarrow> uuid_in s)]\<rparr>
      else db)"
proof (cases "insert_activity_log e
    (log_entry (action_of ep) (resourceType_of ep) req res body) db")
  case (Inl err)
  have "\<not> store_accepts e req body db"
  proof
    assume a: "store_accepts e req body db"
    then obtain staff_id where
      "uuid_param (or_null (map_option reqId (req_staff req))) = Inr staff_id"
      by (auto simp: store_accepts_def uuid_param_def split: option.splits)
    then have "\<exists>db_after. insert_activity_log e
        (log_entry (action_of ep) (resourceType_of ep) req res body) db = Inr db_after"
      using a insert_iff [of e ep req res body db] by blast
    then show False using Inl by simp
  qed
  then show ?thesis using Inl by (simp add: log_callback_def)
next
  case (Inr db_after)
  then obtain staff_id where a: "store_accepts e req body db"
    and s: "uuid_param (or_null (map_option reqId (req_staff req))) = Inr staff_id"
    and d: "db_after = db\<lparr>staff_activity_logs := staff_activity_logs db @
               [log_row_of e (log_entry (action_of ep) (resourceType_of ep) req res body)
                  staff_id]\<rparr>"
    using insert_iff [of e ep req res body db db_after] by blast
  have "staff_id = (case or_null (map_option reqId (req_staff req)) of
                   None \<Rightarrow> None
                 | Some s \<Rightarrow> uuid_in s)"
    using s by (auto simp: uuid_param_def split: option.splits)
  then show ?thesis using Inr a d by (simp add: log_callback_def)
qed

lemma requirePermission_Next:
  "requirePermission p req res = Next req' \<Longrightarrow> req' = req"
  by (auto simp: requirePermission_def Let_def split: option.splits if_splits)

lemma authenticateStaff_Next:
  assumes "authenticateStaff e db req res = Next req'"
  shows "\<exists>tok p. bearer_token req = Some tok \<and> verifyToken e tok = Some p
          \<and> req' = req\<lparr>req_staff := Some
              \<lparr>reqId = staffId p, reqEmail = payloadEmail p, isAdmin = payloadIsAdmin p,
               permissions = payloadPermissions p\<rparr>\<rparr>"
proof (cases "bearer_token req")
  case None
  then show ?thesis using assms by (simp add: bearer_None)
next
  case (Some tok)
  then show ?thesis using assms
    by (auto simp: bearer_Some [OF Some] split: option.splits sum.splits if_splits)
qed

lemma before_logger_Next:
  assumes "before_logger e ep db req res = Next req'"
  shows "\<exists>ident. req' = req\<lparr>req_staff := ident\<rparr>"
proof (cases "ep = Login")
  case True
  then have "req' = req\<lparr>req_staff := req_staff req\<rparr>"
    using assms by (simp add: before_logger_def)
  then show ?thesis by blast
next
  case False
  then obtain req1 where a: "authenticateStaff e db req res = Next req1"
      and b: "req' = req1"
    using assms requirePermission_Next
    by (auto simp: before_logger_def split: mw_result.splits option.splits)
  from authenticateStaff_Next [OF a] show ?thesis using b by blast
qed

text \<open>
  C8, as amended. A request to one of the seven routes that list \<open>logActivity\<close> either
  is answered by a middleware the route lists before the logger (\<open>authenticateStaff\<close>,
  \<open>requirePermission\<close>), and then the store, and with it the log, is as it was; or it
  reaches the logger, and then the handler sends exactly one body, whether it succeeds or
  fails, and the logger issues one insert for it. If the store accepts the insert, the
  log the handler left gains exactly one entry: its action is the one the route names,
  its outcome is \<open>success\<close> if the status code of the response is below 400 and \<open>error\<close>
  otherwise, its staff id is null when no identity is attached and the attached identity's
  id otherwise, and its details are the method, path and query of the request. If the
  store does not accept the insert, nothing is appended.
\<close>

theorem logActivity_one_entry:
  assumes "route e ep req res db = (res', db')"
  shows "(\<forall>answer. before_logger e ep db req res = Responded answer \<longrightarrow>
            res' = answer \<and> db' = db)
       \<and> (\<forall>req1. before_logger e ep db req res = Next req1 \<longrightarrow>
            (\<exists>body db1.
               handler_of e ep req1 res db = (res', db1)
             \<and> sent res' = sent res @ [body]
             \<and> (if store_accepts e req1 body db1
                then \<exists>entry.
                       db' = db1\<lparr>staff_activity_logs := staff_activity_logs db1 @ [entry]\<rparr>
                     \<and> log_action entry = action_of ep
                     \<and> log_status entry =
                         (if statusCode res' < 400 then ''success'' else ''error'')
                     \<and> (req_staff req1 = None \<longrightarrow> log_staff_id entry = None)
                     \<and> (\<forall>me. req_staff req1 = Some me \<and> reqId me \<noteq> [] \<longrightarrow>
                            log_staff_id entry = uuid_in (reqId me))
                     \<and> log_details entry =
                         \<lparr>d_method = req_method req, d_path = req_path req,
                          d_query = req_query req\<rparr>
                else db' = db1)))"
proof (intro conjI allI impI)
  fix answer
  assume "before_logger e ep db req res = Responded answer"
  then show "res' = answer" and "db' = db"
    using assms by (simp_all add: route_def)
next
  fix req1
  assume n: "before_logger e ep db req res = Next req1"
  obtain res1 db1 where h: "handler_of e ep req1 res db = (res1, db1)"
    by (cases "handler_of e ep req1 res db")
  obtain body where b: "sent res1 = sent res @ [body]"
    using handler_sends_once [of e ep req1 res db] h by auto
  have r: "route e ep req res db =
      (res1, log_callback e (action_of ep) (resourceType_of ep) req1 res1 body db1)"
    using n h b by (simp add: route_def logActivity_def)
  then have res': "res' = res1"
    and db': "db' = log_callback e (action_of ep) (resourceType_of ep) req1 res1 body db1"
    using assms by simp_all
  obtain ident where req1: "req1 = req\<lparr>req_staff := ident\<rparr>"
    using before_logger_Next [OF n] by blast
  let ?entry = "log_row_of e (log_entry (action_of ep) (resourceType_of ep) req1 res1 body)
                (case or_null (map_option reqId (req_staff req1)) of
                   None \<Rightarrow> None
                 | Some s \<Rightarrow> uuid_in s)"
  have fields: "log_action ?entry = action_of ep"
    "log_status ?entry = (if statusCode res1 < 400 then ''success'' else ''error'')"
    "req_staff req1 = None \<longrightarrow> log_staff_id ?entry = None"
    "\<forall>me. req_staff req1 = Some me \<and> reqId me \<noteq> [] \<longrightarrow> log_staff_id ?entry = uuid_in (reqId me)"
    "log_details ?entry =
       \<lparr>d_method = req_method req, d_path = req_path req, d_query = req_query req\<rparr>"
    using action_fits(3) [of ep] status_fits(3) [of "statusCode res1"]
    by (simp_all add: log_row_of_def or_null_def req1)
  have "if store_accepts e req1 body db1
        then \<exists>entry.
               db' = db1\<lparr>staff_activity_logs := staff_activity_logs db1 @ [entry]\<rparr>
             \<and> log_action entry = action_of ep
             \<and> log_status entry = (if statusCode res1 < 400 then ''success'' else ''error'')
             \<and> (req_staff req1 = None \<longrightarrow> log_staff_id entry = None)
             \<and> (\<forall>me. req_staff req1 = Some me \<and> reqId me \<noteq> [] \<longrightarrow>
                    log_staff_id entry = uuid_in (reqId me))
             \<and> log_details entry =
                 \<lparr>d_method = req_method req, d_path = req_path req, d_query = req_query req\<rparr>
        else db' = db1"
  proof (cases "store_accepts e req1 body db1")
    case True
    then have d: "db' = db1\<lparr>staff_activity_logs := staff_activity_logs db1 @ [?entry]\<rparr>"
      by (simp add: db' log_callback_result)
    have "\<exists>entry.
               db' = db1\<lparr>staff_activity_logs := staff_activity_logs db1 @ [entry]\<rparr>
             \<and> log_action entry = action_of ep
             \<and> log_status entry = (if statusCode res1 < 400 then ''success'' else ''error'')
             \<and> (req_staff req1 = None \<longrightarrow> log_staff_id entry = None)
             \<and> (\<forall>me. req_staff req1 = Some me \<and> reqId me \<noteq> [] \<longrightarrow>
                    log_staff_id entry = uuid_in (reqId me))
             \<and> log_details entry =
                 \<lparr>d_method = req_method req, d_path = req_path req, d_query = req_query req\<rparr>"
      by (intro exI [of _ ?entry] conjI) (rule d fields)+
    then show ?thesis using True by simp
  next
    case False
    then show ?thesis by (simp add: db' log_callback_result)
  qed
  then show "\<exists>body db1.
               handler_of e ep req1 res db = (res', db1)
             \<and> sent res' = sent res @ [body]
             \<and> (if store_accepts e req1 body db1
                then \<exists>entry.
                       db' = db1\<lparr>staff_activity_logs := staff_activity_logs db1 @ [entry]\<rparr>
                     \<and> log_action entry = action_of ep
                     \<and> log_status entry =
                         (if statusCode res' < 400 then ''success'' else ''error'')
                     \<and> (req_staff req1 = None \<longrightarrow> log_staff_id entry = None)
                     \<and> (\<forall>me. req_staff req1 = Some me \<and> reqId me \<noteq> [] \<longrightarrow>
                            log_staff_id entry = uuid_in (reqId me))
                     \<and> log_details entry =
                         \<lparr>d_method = req_method req, d_path = req_path req,
                          d_query = req_query req\<rparr>
                else db' = db1)"
    using h b res' by blast
qed

subsection \<open>The routes on the example data\<close>

lemma example_authenticated:
  "authenticateStaff example_env example_store
     (delete_request ''jwt:a0000000-0000-4000-8000-000000000001'' target) res0
   = Next ((delete_request ''jwt:a0000000-0000-4000-8000-000000000001'' target)
       \<lparr>req_staff := Some \<lparr>reqId = ''a0000000-0000-4000-8000-000000000001'',
                            reqEmail = ''a@x.com'', isAdmin = False,
                            permissions = [''staff:read'']\<rparr>\<rparr>)"
  "authenticateStaff example_env example_store
     (delete_request ''adm:a0000000-0000-4000-8000-000000000001'' target) res0
   = Next ((delete_request ''adm:a0000000-0000-4000-8000-000000000001'' target)
       \<lparr>req_staff := Some \<lparr>reqId = ''a0000000-0000-4000-8000-000000000001'',
                            reqEmail = ''a@x.com'', isAdmin = True,
                            permissions = [''*'']\<rparr>\<rparr>)"
  "authenticateStaff example_env example_store (delete_request ''forged'' target) res0
   = Responded (fail 401 ''Invalid or expired authentication token'' res0)"
proof -
  have s: "status_col alice = ''active''" by (simp add: fixtures)
  show "authenticateStaff example_env example_store
     (delete_request ''jwt:a0000000-0000-4000-8000-000000000001'' target) res0
   = Next ((delete_request ''jwt:a0000000-0000-4000-8000-000000000001'' target)
       \<lparr>req_staff := Some \<lparr>reqId = ''a0000000-0000-4000-8000-000000000001'',
                            reqEmail = ''a@x.com'', isAdmin = False,
                            permissions = [''staff:read'']\<rparr>\<rparr>)"
    using example_verifyToken(2) [of "''a0000000-0000-4000-8000-000000000001''"]
    by (simp add: bearer_Some [OF example_bearer(2)] example_findById(1) s)
  show "authenticateStaff example_env example_store
     (delete_request ''adm:a0000000-0000-4000-8000-000000000001'' target) res0
   = Next ((delete_request ''adm:a0000000-0000-4000-8000-000000000001'' target)
       \<lparr>req_staff := Some \<lparr>reqId = ''a0000000-0000-4000-8000-000000000001'',
                            reqEmail = ''a@x.com'', isAdmin = True,
                            permissions = [''*'']\<rparr>\<rparr>)"
    using example_verifyToken(3) [of "''a0000000-0000-4000-8000-000000000001''"]
    by (simp add: bearer_Some [OF example_bearer(2)] example_findById(1) s)
  show "authenticateStaff example_env example_store (delete_request ''forged'' target) res0
   = Responded (fail 401 ''Invalid or expired authentication token'' res0)"
    by (simp add: bearer_Some [OF example_bearer(2)] example_verifyToken(1))
qed

lemma example_login_unknown:
  "StaffController_login example_env
     ((login_request ''nobody@x.com'' ''guess'')\<lparr>req_query := q\<rparr>) res0 example_store
   = (fail 401 ''Invalid email or password'' res0, example_store)"
proof -
  have p: "loginSchema_parse (isEmail example_env)
      (req_body ((login_request ''nobody@x.com'' ''guess'')\<lparr>req_query := q\<rparr>))
      = Inr \<lparr>li_email = ''nobody@x.com'', li_password = ''guess''\<rparr>"
    using example_parse [of "''nobody@x.com''" "''guess''"] by simp
  have u: "li_email \<lparr>li_email = ''nobody@x.com'', li_password = ''guess''\<rparr>
      \<notin> set (map email_col (staff example_store))"
    by (simp add: fixtures)
  show ?thesis using login_unknown_email [OF p u] .
qed

text \<open>
  \<open>alice\<close>, holding every permission, asks for \<open>DELETE /:id\<close> with her own id in
  capital letters.
\<close>

lemma example_delete_other_spelling:
  "StaffModel_delete ''A0000000-0000-4000-8000-000000000001'' example_store
     = Inr (example_store\<lparr>staff := [bob, dave, erin]\<rparr>)"
  "req_staff req = Some \<lparr>reqId = ''a0000000-0000-4000-8000-000000000001'',
       reqEmail = ''a@x.com'', isAdmin = ad, permissions = ps\<rparr> \<Longrightarrow>
   StaffController_delete (req\<lparr>params_id := Some ''A0000000-0000-4000-8000-000000000001''\<rparr>)
       res0 example_store
     = (res_json (MessageBody ''Staff member deleted successfully'') res0,
        example_store\<lparr>staff := [bob, dave, erin]\<rparr>)"
proof -
  show del: "StaffModel_delete ''A0000000-0000-4000-8000-000000000001'' example_store
     = Inr (example_store\<lparr>staff := [bob, dave, erin]\<rparr>)"
    by (simp add: StaffModel_delete_def alice_text(2) staff_ids_def still_referenced_def
        fixtures example_ids_distinct)
  show "StaffController_delete
       (req\<lparr>params_id := Some ''A0000000-0000-4000-8000-000000000001''\<rparr>) res0 example_store
     = (res_json (MessageBody ''Staff member deleted successfully'') res0,
        example_store\<lparr>staff := [bob, dave, erin]\<rparr>)"
    if "req_staff req = Some \<lparr>reqId = ''a0000000-0000-4000-8000-000000000001'',
       reqEmail = ''a@x.com'', isAdmin = ad, permissions = ps\<rparr>"
    using that by (simp add: StaffController_delete_def example_findById(2) del)
qed

lemma example_route_other_spelling:
  "route example_env Delete
      (delete_request ''adm:a0000000-0000-4000-8000-000000000001''
         ''A0000000-0000-4000-8000-000000000001'') res0 example_store
     = (res_json (MessageBody ''Staff member deleted successfully'') res0,
        example_store\<lparr>staff := [bob, dave, erin]\<rparr>)"
proof -
  let ?A = "''A0000000-0000-4000-8000-000000000001''"
  let ?a = "''a0000000-0000-4000-8000-000000000001''"
  let ?db = "example_store\<lparr>staff := [bob, dave, erin]\<rparr>"
  let ?ok = "res_json (MessageBody ''Staff member deleted successfully'') res0"
  let ?req1 = "(delete_request ''adm:a0000000-0000-4000-8000-000000000001'' ?A)
       \<lparr>req_staff := Some \<lparr>reqId = ?a, reqEmail = ''a@x.com'', isAdmin = True,
                            permissions = [''*'']\<rparr>\<rparr>"
  have n: "before_logger example_env Delete example_store
      (delete_request ''adm:a0000000-0000-4000-8000-000000000001'' ?A) res0 = Next ?req1"
    by (simp add: before_logger_def example_authenticated(2) requirePermission_def)
  have h1: "StaffController_delete ?req1 res0 example_store = (?ok, ?db)"
    using example_delete_other_spelling(2) [where req = ?req1 and ad = True and ps = "[''*'']"]
    by (simp add: delete_request_def)
  have "\<not> store_accepts example_env ?req1
      (MessageBody ''Staff member deleted successfully'') ?db"
    by (simp add: store_accepts_def or_null_def alice_text(1) staff_ids_def fixtures
        example_ids_distinct)
  then have "log_callback example_env (action_of Delete) (resourceType_of Delete) ?req1 ?ok
      (MessageBody ''Staff member deleted successfully'') ?db = ?db"
    by (simp only: log_callback_result if_False)
  then show ?thesis
    by (simp add: route_def n logActivity_def h1)
qed

text \<open>The same with a path id of 300 characters, which is no \<open>UUID\<close>.\<close>

lemma long_id_facts:
  "uuid_in long_id = None"
  "\<not> fits 255 long_id"
  "long_id \<noteq> ''a0000000-0000-4000-8000-000000000001''"
  "long_id \<noteq> []"
proof -
  have "replicate 300 CHR ''x'' = replicate 4 CHR ''x'' @ replicate 296 CHR ''x''"
    by (simp flip: replicate_add)
  then have l: "long_id = CHR ''x'' # CHR ''x'' # CHR ''x'' # CHR ''x'' # replicate 296 CHR ''x''"
    by (simp add: long_id_def eval_nat_numeral)
  show "uuid_in long_id = None"
    unfolding l by (simp add: uuid_in_def parse_uuid)
  show "\<not> fits 255 long_id"
    by (simp add: long_id_def fits_def replicate_eq_replicate)
  show "long_id \<noteq> ''a0000000-0000-4000-8000-000000000001''"
    unfolding l by simp
  show "long_id \<noteq> []"
    unfolding l by simp
qed

lemma example_route_long_id:
  "route example_env Delete
      (delete_request ''adm:a0000000-0000-4000-8000-000000000001'' long_id) res0 example_store
     = (fail 500 ''Failed to delete staff member'' res0, example_store)"
proof -
  let ?req1 = "(delete_request ''adm:a0000000-0000-4000-8000-000000000001'' long_id)
       \<lparr>req_staff := Some \<lparr>reqId = ''a0000000-0000-4000-8000-000000000001'',
                            reqEmail = ''a@x.com'', isAdmin = True,
                            permissions = [''*'']\<rparr>\<rparr>"
  have n: "before_logger example_env Delete example_store
      (delete_request ''adm:a0000000-0000-4000-8000-000000000001'' long_id) res0 = Next ?req1"
    by (simp add: before_logger_def example_authenticated(2) requirePermission_def)
  have h1: "StaffController_delete ?req1 res0 example_store
      = (fail 500 ''Failed to delete staff member'' res0, example_store)"
    by (simp add: StaffController_delete_def StaffModel_findById_def long_id_facts
        delete_request_def)
  have "\<not> store_accepts example_env ?req1
      (ErrorBody ''Failed to delete staff member'') example_store"
    by (simp add: store_accepts_def or_null_def delete_request_def long_id_facts)
  then have "log_callback example_env (action_of Delete) (resourceType_of Delete) ?req1
      (fail 500 ''Failed to delete staff member'' res0)
      (ErrorBody ''Failed to delete staff member'') example_store = example_store"
    by (simp only: log_callback_result if_False)
  then show ?thesis
    by (simp add: route_def n logActivity_def h1)
qed

text \<open>
  A login for an e-mail nobody has: the answer is 401 and the log gains one entry with
  action \<open>staff.login\<close>, outcome \<open>error\<close>, no staff id, and the request's method, path
  and query.
\<close>

theorem logActivity_one_entry_witness:
  "\<exists>entry.
     route example_env Login (login_request ''nobody@x.com'' ''guess'') res0 example_store
       = (fail 401 ''Invalid email or password'' res0,
          example_store\<lparr>staff_activity_logs := [entry]\<rparr>)
   \<and> log_action entry = ''staff.login''
   \<and> log_status entry = ''error''
   \<and> log_staff_id entry = None
   \<and> log_details entry = \<lparr>d_method = ''POST'', d_path = ''/login'', d_query = []\<rparr>"
proof -
  let ?req = "login_request ''nobody@x.com'' ''guess''"
  let ?R = "route example_env Login ?req res0 example_store"
  have r: "?R = (fst ?R, snd ?R)" by simp
  have n: "before_logger example_env Login example_store ?req res0 = Next ?req"
    by (simp add: before_logger_def)
  have h: "handler_of example_env Login ?req res0 example_store
      = (fail 401 ''Invalid email or password'' res0, example_store)"
    using example_login_unknown [of "[]"] by (simp add: login_request_def)
  from logActivity_one_entry [OF r] n obtain body db1 where
    1: "handler_of example_env Login ?req res0 example_store = (fst ?R, db1)"
    and 2: "sent (fst ?R) = sent res0 @ [body]"
    and 3: "if store_accepts example_env ?req body db1
            then \<exists>entry.
                   snd ?R = db1\<lparr>staff_activity_logs := staff_activity_logs db1 @ [entry]\<rparr>
                 \<and> log_action entry = action_of Login
                 \<and> log_status entry =
                     (if statusCode (fst ?R) < 400 then ''success'' else ''error'')
                 \<and> (req_staff ?req = None \<longrightarrow> log_staff_id entry = None)
                 \<and> (\<forall>me. req_staff ?req = Some me \<and> reqId me \<noteq> [] \<longrightarrow>
                        log_staff_id entry = uuid_in (reqId me))
                 \<and> log_details entry =
                     \<lparr>d_method = req_method ?req, d_path = req_path ?req,
                      d_query = req_query ?req\<rparr>
            else snd ?R = db1"
    by blast
  have f: "fst ?R = fail 401 ''Invalid email or password'' res0" and d: "db1 = example_store"
    using 1 h by simp_all
  have b: "body = ErrorBody ''Invalid email or password''"
    using 2 f by simp
  have a: "store_accepts example_env ?req body example_store"
    by (simp add: store_accepts_def b or_null_def error_of_def login_request_def
        example_env_def nul_def)
  have logs: "staff_activity_logs example_store = []"
    by (simp add: example_store_def)
  have "\<exists>entry.
           snd ?R = example_store\<lparr>staff_activity_logs :=
                      staff_activity_logs example_store @ [entry]\<rparr>
         \<and> log_action entry = action_of Login
         \<and> log_status entry =
             (if statusCode (fst ?R) < 400 then ''success'' else ''error'')
         \<and> (req_staff ?req = None \<longrightarrow> log_staff_id entry = None)
         \<and> (\<forall>me. req_staff ?req = Some me \<and> reqId me \<noteq> [] \<longrightarrow>
                log_staff_id entry = uuid_in (reqId me))
         \<and> log_details entry =
             \<lparr>d_method = req_method ?req, d_path = req_path ?req,
              d_query = req_query ?req\<rparr>"
    using 3 [unfolded d] by (simp only: a if_True)
  then obtain entry where
    e: "snd ?R = example_store\<lparr>staff_activity_logs :=
                      staff_activity_logs example_store @ [entry]\<rparr>
         \<and> log_action entry = action_of Login
         \<and> log_status entry =
             (if statusCode (fst ?R) < 400 then ''success'' else ''error'')
         \<and> (req_staff ?req = None \<longrightarrow> log_staff_id entry = None)
         \<and> (\<forall>me. req_staff ?req = Some me \<and> reqId me \<noteq> [] \<longrightarrow>
                log_staff_id entry = uuid_in (reqId me))
         \<and> log_details entry =
             \<lparr>d_method = req_method ?req, d_path = req_path ?req,
              d_query = req_query ?req\<rparr>" ..
  have "?R = (fail 401 ''Invalid email or password'' res0,
          example_store\<lparr>staff_activity_logs := [entry]\<rparr>)"
    using f e by (simp add: prod_eq_iff logs)
  moreover have "log_action entry = ''staff.login''"
    using e by simp
  moreover have "log_status entry = ''error''"
    using e by (simp add: f)
  moreover have "log_staff_id entry = None"
    using e by (simp add: login_request_def)
  moreover have "log_details entry
      = \<lparr>d_method = ''POST'', d_path = ''/login'', d_query = []\<rparr>"
    using e by (simp add: login_request_def)
  ultimately show ?thesis by blast
qed

text \<open>
  C8 as written, one entry for every call to an endpoint the logger wraps, fails for
  calls that an earlier middleware of the route answers, and for calls whose insert the
  store rejects. \<open>DELETE /:id\<close> with the token of \<open>alice\<close>, who holds only \<open>staff:read\<close>,
  is answered 403 by \<open>requirePermission\<close>, and with a token that does not verify it is
  answered 401 by \<open>authenticateStaff\<close>. The other three calls reach the logger. A login
  for an unknown e-mail whose query string has a NUL character is answered 401, and
  \<open>JSONB\<close> rejects its details. \<open>DELETE /:id\<close> with a path id of 300 characters is
  answered 500, and \<open>VARCHAR(255)\<close> rejects its resource id. \<open>DELETE /:id\<close> by \<open>alice\<close>
  with her own id in capital letters is answered 200, and the foreign key rejects her
  staff id, which names no row any more. In all five cases the log, which was empty, is
  empty afterwards.
\<close>

theorem activity_log_skipped_counterexample:
  "route example_env Delete
     (delete_request ''jwt:a0000000-0000-4000-8000-000000000001''
        ''d0000000-0000-4000-8000-000000000003'') res0 example_store
     = (fail 403 ''Insufficient permissions'' res0, example_store)
 \<and> route example_env Delete
     (delete_request ''forged'' ''d0000000-0000-4000-8000-000000000003'') res0 example_store
     = (fail 401 ''Invalid or expired authentication token'' res0, example_store)
 \<and> route example_env Login
     ((login_request ''nobody@x.com'' ''guess'')\<lparr>req_query := [(''x'', [nul])]\<rparr>)
     res0 example_store
     = (fail 401 ''Invalid email or password'' res0, example_store)
 \<and> route example_env Delete
     (delete_request ''adm:a0000000-0000-4000-8000-000000000001'' long_id) res0 example_store
     = (fail 500 ''Failed to delete staff member'' res0, example_store)
 \<and> statusCode (fst (route example_env Delete
     (delete_request ''adm:a0000000-0000-4000-8000-000000000001''
        ''A0000000-0000-4000-8000-000000000001'') res0 example_store)) = 200
 \<and> staff_activity_logs (snd (route example_env Delete
     (delete_request ''adm:a0000000-0000-4000-8000-000000000001''
        ''A0000000-0000-4000-8000-000000000001'') res0 example_store)) = []
 \<and> staff_activity_logs example_store = []"
proof (intro conjI)
  show "route example_env Delete
     (delete_request ''jwt:a0000000-0000-4000-8000-000000000001''
        ''d0000000-0000-4000-8000-000000000003'') res0 example_store
     = (fail 403 ''Insufficient permissions'' res0, example_store)"
    by (simp add: route_def before_logger_def example_authenticated(1)
        requirePermission_def resource_of_def)
  show "route example_env Delete
     (delete_request ''forged'' ''d0000000-0000-4000-8000-000000000003'') res0 example_store
     = (fail 401 ''Invalid or expired authentication token'' res0, example_store)"
    by (simp add: route_def before_logger_def example_authenticated(3))
  let ?req = "(login_request ''nobody@x.com'' ''guess'')\<lparr>req_query := [(''x'', [nul])]\<rparr>"
  have "\<not> store_accepts example_env ?req (ErrorBody ''Invalid email or password'')
      example_store"
    by (simp add: store_accepts_def)
  then have "log_callback example_env (action_of Login) (resourceType_of Login) ?req
      (fail 401 ''Invalid email or password'' res0) (ErrorBody ''Invalid email or password'')
      example_store = example_store"
    by (simp only: log_callback_result if_False)
  then show "route example_env Login ?req res0 example_store
     = (fail 401 ''Invalid email or password'' res0, example_store)"
    by (simp add: route_def before_logger_def logActivity_def example_login_unknown)
  show "route example_env Delete
     (delete_request ''adm:a0000000-0000-4000-8000-000000000001'' long_id) res0 example_store
     = (fail 500 ''Failed to delete staff member'' res0, example_store)"
    by (rule example_route_long_id)
  show "statusCode (fst (route example_env Delete
     (delete_request ''adm:a0000000-0000-4000-8000-000000000001''
        ''A0000000-0000-4000-8000-000000000001'') res0 example_store)) = 200"
    by (simp add: example_route_other_spelling) (simp add: res0_def)
  show "staff_activity_logs (snd (route example_env Delete
     (delete_request ''adm:a0000000-0000-4000-8000-000000000001''
        ''A0000000-0000-4000-8000-000000000001'') res0 example_store)) = []"
    by (simp add: example_route_other_spelling) (simp add: example_store_def)
  show "staff_activity_logs example_store = []"
    by (simp add: example_store_def)
qed

section \<open>Deleting one's own account\<close>

text \<open>
  C10. The guard of \<open>StaffController.delete\<close> compares the id of the path with the id
  of the caller as strings, and the statements behind it compare \<open>UUID\<close> values.
  \<open>alice\<close>, holding every permission, asks for \<open>DELETE /:id\<close> with her own id written
  in capital letters. The two strings differ and read as the same \<open>UUID\<close>, the one of
  her stored row. The handler passes the guard, finds her account and deletes it: the
  answer is 200 \<open>Staff member deleted successfully\<close>, and the store has her row no
  more, through the handler alone and through the whole route. (The logger's insert for
  this request is rejected, since its staff id names a row that no longer exists.)
\<close>

theorem delete_own_account_other_spelling:
  "''A0000000-0000-4000-8000-000000000001'' \<noteq> ''a0000000-0000-4000-8000-000000000001''
 \<and> uuid_in ''A0000000-0000-4000-8000-000000000001'' = Some (id_col alice)
 \<and> uuid_in ''a0000000-0000-4000-8000-000000000001'' = Some (id_col alice)
 \<and> row_of example_store (id_col alice) = Some alice
 \<and> StaffController_delete
      ((request_with_permissions [''*''])
         \<lparr>params_id := Some ''A0000000-0000-4000-8000-000000000001''\<rparr>) res0 example_store
     = (res_json (MessageBody ''Staff member deleted successfully'') res0,
        example_store\<lparr>staff := [bob, dave, erin]\<rparr>)
 \<and> route example_env Delete
      (delete_request ''adm:a0000000-0000-4000-8000-000000000001''
         ''A0000000-0000-4000-8000-000000000001'') res0 example_store
     = (res_json (MessageBody ''Staff member deleted successfully'') res0,
        example_store\<lparr>staff := [bob, dave, erin]\<rparr>)
 \<and> row_of (example_store\<lparr>staff := [bob, dave, erin]\<rparr>) (id_col alice) = None"
proof -
  have i: "id_col alice = alice_id" by (simp add: alice_def account_def)
  have 1: "StaffController_delete
      ((request_with_permissions [''*''])
         \<lparr>params_id := Some ''A0000000-0000-4000-8000-000000000001''\<rparr>) res0 example_store
     = (res_json (MessageBody ''Staff member deleted successfully'') res0,
        example_store\<lparr>staff := [bob, dave, erin]\<rparr>)"
    by (rule example_delete_other_spelling(2) [where ad = False and ps = "[''*'']"])
       (simp add: request_with_permissions_def)
  have 3: "row_of (example_store\<lparr>staff := [bob, dave, erin]\<rparr>) alice_id = None"
    by (simp add: row_of_def fixtures example_ids_distinct)
  show ?thesis
    using 1 example_route_other_spelling 3 by (simp add: i alice_text example_rows)
qed

end
